theory Spec2Isabelle
  imports Main "HOL-Library.Sublist" "HOL-Library.AList"
begin

section \<open>Release-asset publisher (build/azure-pipelines/common/createAsset.ts)\<close>

text \<open>
  JavaScript strings are modelled as \<open>string\<close>; a thrown value or a rejected promise is
  the \<open>Inl\<close> side of a sum. \<open>Thrown s\<close> is \<open>throw s\<close> of a string, \<open>ErrorObj s\<close> is
  \<open>throw new Error(s)\<close>, and \<open>Rejected s\<close> is a rejection that comes from an external
  collaborator (file system, object store, metadata database).
\<close>

datatype error = Thrown string | ErrorObj string | Rejected string

subsection \<open>getPlatform\<close>

definition unrecognized :: "string \<Rightarrow> string \<Rightarrow> string \<Rightarrow> string \<Rightarrow> error" where
  "unrecognized product os arch type =
     Thrown (''Unrecognized: '' @ product @ '' '' @ os @ '' '' @ arch @ '' '' @ type)"

definition getPlatform :: "string \<Rightarrow> string \<Rightarrow> string \<Rightarrow> string \<Rightarrow> error + string" where
  "getPlatform product os arch type =
    (if os = ''win32'' then
       (if product = ''client'' then
          (let asset = (if arch = ''ia32'' then ''win32'' else ''win32-'' @ arch) in
           if type = ''archive'' then Inr (asset @ ''-archive'')
           else if type = ''setup'' then Inr asset
           else if type = ''user-setup'' then Inr (asset @ ''-user'')
           else Inl (unrecognized product os arch type))
        else if product = ''server'' then
          (if arch = ''arm64'' then Inl (unrecognized product os arch type)
           else Inr (if arch = ''ia32'' then ''server-win32''
                     else ''server-win32-'' @ arch))
        else if product = ''web'' then
          (if arch = ''arm64'' then Inl (unrecognized product os arch type)
           else Inr (if arch = ''ia32'' then ''server-win32-web''
                     else ''server-win32-'' @ arch @ ''-web''))
        else Inl (unrecognized product os arch type))
     else if os = ''linux'' then
       (if type = ''snap'' then Inr (''linux-snap-'' @ arch)
        else if type = ''archive-unsigned'' then
          (if product = ''client'' then Inr (''linux-'' @ arch)
           else if product = ''server'' then Inr (''server-linux-'' @ arch)
           else if product = ''web'' then
             Inr (if arch = ''standalone'' then ''web-standalone''
                  else ''server-linux-'' @ arch @ ''-web'')
           else Inl (unrecognized product os arch type))
        else if type = ''deb-package'' then Inr (''linux-deb-'' @ arch)
        else if type = ''rpm-package'' then Inr (''linux-rpm-'' @ arch)
        else Inl (unrecognized product os arch type))
     else if os = ''darwin'' then
       (if product = ''client'' then
          (if arch = ''x64'' then Inr ''darwin'' else Inr (''darwin-'' @ arch))
        else if product = ''server'' then Inr ''server-darwin''
        else if product = ''web'' then
          (if arch \<noteq> ''x64'' then
             Inl (Thrown (''What should the platform be?: '' @ product @ '' '' @ os @ '' ''
                          @ arch @ '' '' @ type))
           else Inr ''server-darwin-web'')
        else Inl (unrecognized product os arch type))
     else Inl (unrecognized product os arch type))"

text \<open>
  The decision table of \<open>getPlatform\<close>, written as the set of rows that carry a platform
  string: which (product, os, arch, type) combinations are mapped at all.
\<close>

definition in_table :: "string \<Rightarrow> string \<Rightarrow> string \<Rightarrow> string \<Rightarrow> bool" where
  "in_table product os arch type \<longleftrightarrow>
     os = ''win32'' \<and>
       (product = ''client'' \<and> (type = ''archive'' \<or> type = ''setup'' \<or> type = ''user-setup'')
        \<or> (product = ''server'' \<or> product = ''web'') \<and> arch \<noteq> ''arm64'')
     \<or> os = ''linux'' \<and>
       (type = ''snap'' \<or> type = ''deb-package'' \<or> type = ''rpm-package''
        \<or> type = ''archive-unsigned'' \<and>
            (product = ''client'' \<or> product = ''server'' \<or> product = ''web''))
     \<or> os = ''darwin'' \<and>
       (product = ''client'' \<or> product = ''server'' \<or> product = ''web'' \<and> arch = ''x64'')"

subsection \<open>getRealType\<close>

definition getRealType :: "string \<Rightarrow> string" where
  "getRealType type =
     (if type = ''user-setup'' then ''setup''
      else if type = ''deb-package'' \<or> type = ''rpm-package'' then ''package''
      else type)"

subsection \<open>The asset record and the external world\<close>

text \<open>
  The interface \<open>Asset\<close>; the field names carry the prefix \<open>asset_\<close>. An optional field
  that is absent is \<open>None\<close>.
\<close>

record asset =
  asset_platform :: string
  asset_type :: string
  asset_url :: string
  asset_mooncakeUrl :: "string option"
  asset_hash :: string
  asset_sha256hash :: string
  asset_size :: nat
  asset_supportsFastUpdate :: "bool option"

text \<open>
  A container client as \<open>main\<close> configures it: the container URL, and the account name
  and key given to the shared-key credential (\<open>None\<close> is \<open>undefined\<close>).
\<close>

record client =
  c_url :: string
  c_account :: "string option"
  c_key :: "string option"

text \<open>
  Everything \<open>main\<close> reads from outside the program: the environment, the file system,
  the hash library, the storage SDK, the metadata database and \<open>url.parse\<close>. Attempts of
  a retried operation are numbered from 0.
\<close>

record world =
  env :: "string \<Rightarrow> string option"
  fs_stat :: "string \<Rightarrow> error + nat"
  read_stream :: "string \<Rightarrow> error + string"
  digest :: "string \<Rightarrow> string \<Rightarrow> string"
  client_fails :: "client \<Rightarrow> error option"
  blob_exists :: "client \<Rightarrow> string \<Rightarrow> error + bool option"
  upload_fails :: "nat \<Rightarrow> client \<Rightarrow> string \<Rightarrow> error option"
  cosmos_client_fails :: "error option"
  proc_fails :: "nat \<Rightarrow> error option"
  url_path :: "string \<Rightarrow> string option"
  max_retries :: nat

datatype logval = LStr string | LNum nat | LAsset asset | LErr error

datatype event =
    ConsoleLog "logval list"
  | ConsoleError "logval list"
  | ExistsCall client string
  | UploadFile client string string string
  | StoredProcedure string string asset

text \<open>
  An asynchronous computation is the list of events it performs, in order, and its
  outcome: a value, or the error it throws or rejects with.
\<close>

type_synonym 'a io = "event list \<times> (error + 'a)"

definition io_bind :: "'a io \<Rightarrow> ('a \<Rightarrow> 'b io) \<Rightarrow> 'b io" where
  "io_bind m f =
     (case m of
        (evs, Inl e) \<Rightarrow> (evs, Inl e)
      | (evs, Inr v) \<Rightarrow> (case f v of (evs', r) \<Rightarrow> (evs @ evs', r)))"

definition io_pure :: "(error + 'a) \<Rightarrow> 'a io" where
  "io_pure r = ([], r)"

definition console_log :: "logval list \<Rightarrow> unit io" where
  "console_log vs = ([ConsoleLog vs], Inr ())"

text \<open>A template literal renders \<open>undefined\<close> and \<open>null\<close> by their names.\<close>

definition str_undefined :: "string option \<Rightarrow> string" where
  "str_undefined v = (case v of None \<Rightarrow> ''undefined'' | Some s \<Rightarrow> s)"

definition str_null :: "string option \<Rightarrow> string" where
  "str_null v = (case v of None \<Rightarrow> ''null'' | Some s \<Rightarrow> s)"

subsection \<open>hashStream, doesAssetExist, uploadBlob, getEnv\<close>

definition hashStream :: "world \<Rightarrow> string \<Rightarrow> string \<Rightarrow> error + string" where
  "hashStream w hashName filePath =
     (case read_stream w filePath of
        Inl e \<Rightarrow> Inl e
      | Inr bytes \<Rightarrow> Inr (digest w hashName bytes))"

definition doesAssetExist :: "world \<Rightarrow> client \<Rightarrow> string \<Rightarrow> (bool option) io" where
  "doesAssetExist w containerClient blobName =
     ([ExistsCall containerClient blobName], blob_exists w containerClient blobName)"

definition uploadBlob :: "world \<Rightarrow> nat \<Rightarrow> client \<Rightarrow> string \<Rightarrow> string \<Rightarrow> string \<Rightarrow> unit io" where
  "uploadBlob w attempt containerClient blobName filePath fileName =
     ([UploadFile containerClient blobName filePath fileName],
      (case upload_fails w attempt containerClient blobName of
         Some e \<Rightarrow> Inl e
       | None \<Rightarrow> Inr ()))"

definition getEnv :: "world \<Rightarrow> string \<Rightarrow> error + string" where
  "getEnv w name =
     (case env w name of
        None \<Rightarrow> Inl (ErrorObj (''Missing env: '' @ name))
      | Some result \<Rightarrow> Inr result)"

text \<open>
  \<open>Promise.all\<close> of two calls: both are started, and the result rejects when either
  rejects.
\<close>

definition promise_all2 :: "unit io \<Rightarrow> unit io \<Rightarrow> unit io" where
  "promise_all2 a b =
     (case (a, b) of
        ((evs, r), (evs', r')) \<Rightarrow>
          (evs @ evs', (case r of Inl e \<Rightarrow> Inl e | Inr _ \<Rightarrow> r')))"

text \<open>
  Modelled from the spec: \<open>retry\<close> of \<open>./retry\<close>, which is not among the sources. The spec
  says that the wrapper retries the supplied asynchronous operation on failure, that the
  limit is an external parameter, and that exhausting the retries is a fatal error. Here
  the operation is run again after each failure, at most \<open>n\<close> more times, and the last
  failure is the result.
\<close>

fun retry :: "nat \<Rightarrow> nat \<Rightarrow> (nat \<Rightarrow> 'a io) \<Rightarrow> 'a io" where
  "retry 0 k fn = fn k"
| "retry (Suc n) k fn =
     (case fn k of
        (evs, Inr v) \<Rightarrow> (evs, Inr v)
      | (evs, Inl e) \<Rightarrow> (case retry n (Suc k) fn of (evs', r) \<Rightarrow> (evs @ evs', r)))"

subsection \<open>main\<close>

text \<open>
  \<open>new StorageSharedKeyCredential(account, key)\<close> followed by
  \<open>new ContainerClient(url, credential, options)\<close>: the SDK's constructors may throw.
\<close>

definition new_ContainerClient ::
  "world \<Rightarrow> string \<Rightarrow> string option \<Rightarrow> string option \<Rightarrow> client io" where
  "new_ContainerClient w containerUrl account key =
     (let c = \<lparr> c_url = containerUrl, c_account = account, c_key = key \<rparr>
      in io_pure (case client_fails w c of Some e \<Rightarrow> Inl e | None \<Rightarrow> Inr c))"

text \<open>The object literal of \<open>main\<close> with the conditional \<open>supportsFastUpdate\<close>.\<close>

definition build_asset ::
  "string \<Rightarrow> string \<Rightarrow> string \<Rightarrow> string \<Rightarrow> string \<Rightarrow> string \<Rightarrow> nat \<Rightarrow> asset" where
  "build_asset platform' type' assetUrl sha1hash mooncakeUrl' sha256hash' size' =
     (let asset = \<lparr> asset_platform = platform', asset_type = type', asset_url = assetUrl,
                    asset_mooncakeUrl = Some mooncakeUrl', asset_hash = sha1hash,
                    asset_sha256hash = sha256hash', asset_size = size',
                    asset_supportsFastUpdate = None \<rparr>
      in if sublist ''win32'' platform' then asset\<lparr>asset_supportsFastUpdate := Some True\<rparr>
         else asset)"

text \<open>
  The steps of \<open>main\<close> after the existence check: the mirror client, the two uploads
  under \<open>retry\<close>, the asset record, the database client (whose constructor may throw)
  and the stored-procedure call under \<open>retry\<close>. The last log line is written without
  its check mark.
\<close>

definition main_publish_steps ::
  "world \<Rightarrow> string \<Rightarrow> string \<Rightarrow> string \<Rightarrow> string \<Rightarrow> string \<Rightarrow> string \<Rightarrow> string
     \<Rightarrow> nat \<Rightarrow> string \<Rightarrow> string \<Rightarrow> string option \<Rightarrow> client \<Rightarrow> unit io" where
  "main_publish_steps w platform' type' quality commit fileName filePath blobName
      size' sha1hash sha256hash' storageAccount blobContainerClient =
     (let storageAccountStr = str_undefined storageAccount;
          mooncakeAccountKey = env w ''MOONCAKE_STORAGE_ACCESS_KEY'' in
      io_bind (new_ContainerClient w
          (''https://'' @ storageAccountStr @ ''.blob.core.chinacloudapi.cn/'' @ quality)
          storageAccount mooncakeAccountKey)
        (\<lambda>mooncakeBlobContainerClient.
      io_bind (console_log
          [LStr ''Uploading blobs to Azure storage and Mooncake Azure storage...''])
        (\<lambda>_.
      io_bind (retry (max_retries w) 0 (\<lambda>attempt. promise_all2
          (uploadBlob w attempt blobContainerClient blobName filePath fileName)
          (uploadBlob w attempt mooncakeBlobContainerClient blobName filePath fileName)))
        (\<lambda>_.
      io_bind (console_log [LStr ''Blobs successfully uploaded.''])
        (\<lambda>_.
      (let assetUrl = str_undefined (env w ''AZURE_CDN_URL'') @ ''/'' @ quality @ ''/''
                      @ blobName;
           blobPath = url_path w assetUrl;
           mooncakeUrl' = str_undefined (env w ''MOONCAKE_CDN_URL'') @ str_null blobPath;
           asset = build_asset platform' type' assetUrl sha1hash mooncakeUrl' sha256hash'
                     size'
       in
      io_bind (console_log [LStr ''Asset:'', LAsset asset])
        (\<lambda>_.
      io_bind (io_pure (case cosmos_client_fails w of Some e \<Rightarrow> Inl e | None \<Rightarrow> Inr ()))
        (\<lambda>client.
      io_bind (retry (max_retries w) 0 (\<lambda>attempt.
          ([StoredProcedure quality commit asset],
           (case proc_fails w attempt of Some e \<Rightarrow> Inl e | None \<Rightarrow> Inr ()))))
        (\<lambda>_.
      console_log [LStr ''  Done''])))))))))"

text \<open>
  The constants that \<open>main\<close> has bound when it reaches the existence check.
\<close>

record main_vars =
  v_platform :: string
  v_type :: string
  v_quality :: string
  v_commit :: string
  v_size :: nat
  v_sha1hash :: string
  v_sha256hash :: string
  v_blobName :: string
  v_storageAccount :: "string option"
  v_blobContainerClient :: client

text \<open>
  The steps of \<open>main\<close> before the existence check: the platform key, the type, the two
  required environment variables, the size, the two digests, the blob name and the
  primary container client. Each step that throws or rejects ends \<open>main\<close>.
\<close>

definition main_prepare ::
  "world \<Rightarrow> string \<Rightarrow> string \<Rightarrow> string \<Rightarrow> string \<Rightarrow> string \<Rightarrow> string \<Rightarrow> main_vars io" where
  "main_prepare w product os arch unprocessedType fileName filePath =
     io_bind (io_pure (getPlatform product os arch unprocessedType))
       (\<lambda>platform'.
     (let type' = getRealType unprocessedType in
     io_bind (io_pure (getEnv w ''VSCODE_QUALITY''))
       (\<lambda>quality.
     io_bind (io_pure (getEnv w ''BUILD_SOURCEVERSION''))
       (\<lambda>commit.
     io_bind (console_log [LStr ''Creating asset...''])
       (\<lambda>_.
     io_bind (io_pure (fs_stat w filePath))
       (\<lambda>size'.
     io_bind (console_log [LStr ''Size:'', LNum size'])
       (\<lambda>_.
     io_bind (io_pure (hashStream w ''sha1'' filePath))
       (\<lambda>sha1hash.
     io_bind (io_pure (hashStream w ''sha256'' filePath))
       (\<lambda>sha256hash'.
     io_bind (console_log [LStr ''SHA1:'', LStr sha1hash])
       (\<lambda>_.
     io_bind (console_log [LStr ''SHA256:'', LStr sha256hash'])
       (\<lambda>_.
     (let blobName = commit @ ''/'' @ fileName;
          storageAccount = env w ''AZURE_STORAGE_ACCOUNT_2'';
          storageAccountKey = env w ''AZURE_STORAGE_ACCESS_KEY_2'';
          storageAccountStr = str_undefined storageAccount
      in
     io_bind (new_ContainerClient w
         (''https://'' @ storageAccountStr @ ''.blob.core.windows.net/'' @ quality)
         storageAccount storageAccountKey)
       (\<lambda>blobContainerClient.
     io_pure (Inr \<lparr> v_platform = platform', v_type = type', v_quality = quality,
                     v_commit = commit, v_size = size', v_sha1hash = sha1hash,
                     v_sha256hash = sha256hash', v_blobName = blobName,
                     v_storageAccount = storageAccount,
                     v_blobContainerClient = blobContainerClient \<rparr>))))))))))))))"

definition main ::
  "world \<Rightarrow> string \<Rightarrow> string \<Rightarrow> string \<Rightarrow> string \<Rightarrow> string \<Rightarrow> string \<Rightarrow> unit io" where
  "main w product os arch unprocessedType fileName filePath =
     io_bind (main_prepare w product os arch unprocessedType fileName filePath)
       (\<lambda>v.
     io_bind (doesAssetExist w (v_blobContainerClient v) (v_blobName v))
       (\<lambda>blobExists.
     if blobExists = Some True then
       console_log [LStr (''Blob '' @ v_quality v @ '', '' @ v_blobName v
                          @ '' already exists, not publishing again.'')]
     else
       main_publish_steps w (v_platform v) (v_type v) (v_quality v) (v_commit v) fileName
         filePath (v_blobName v) (v_size v) (v_sha1hash v) (v_sha256hash v)
         (v_storageAccount v) (v_blobContainerClient v)))"

subsection \<open>The script: arity check, then main and its two handlers\<close>

text \<open>
  The module's top level on \<open>process.argv\<close>: the events of the run and the argument
  given to \<open>process.exit\<close>. A wrong number of arguments ends the process before \<open>main\<close>
  is called.
\<close>

definition script :: "world \<Rightarrow> string list \<Rightarrow> event list \<times> int" where
  "script w argv =
     (if length argv \<noteq> 8 then
        ([ConsoleError [LStr ''Usage: node createAsset.js PRODUCT OS ARCH TYPE NAME FILE'']],
         - 1)
      else
        (case main w (argv ! 2) (argv ! 3) (argv ! 4) (argv ! 5) (argv ! 6) (argv ! 7) of
           (evs, Inr _) \<Rightarrow> (evs @ [ConsoleLog [LStr ''Asset successfully created'']], 0)
         | (evs, Inl err) \<Rightarrow> (evs @ [ConsoleError [LErr err]], 1)))"

subsection \<open>Observations on a run\<close>

fun is_upload :: "event \<Rightarrow> bool" where
  "is_upload (UploadFile _ _ _ _) = True"
| "is_upload _ = False"

fun is_metadata_call :: "event \<Rightarrow> bool" where
  "is_metadata_call (StoredProcedure _ _ _) = True"
| "is_metadata_call _ = False"

definition uploads :: "event list \<Rightarrow> event list" where
  "uploads evs = filter is_upload evs"

definition metadata_calls :: "event list \<Rightarrow> event list" where
  "metadata_calls evs = filter is_metadata_call evs"

text \<open>
  A sample world for concrete runs: both required variables are set, the artifact has
  three bytes, every SDK call succeeds, and the existence check answers \<open>published\<close>.
\<close>

definition world_sample :: "bool \<Rightarrow> world" where
  "world_sample published =
     \<lparr> env = [''VSCODE_QUALITY'' \<mapsto> ''stable'', ''BUILD_SOURCEVERSION'' \<mapsto> ''c0ffee'',
              ''AZURE_STORAGE_ACCOUNT_2'' \<mapsto> ''acct''],
       fs_stat = (\<lambda>_. Inr 3),
       read_stream = (\<lambda>_. Inr ''zip''),
       digest = (\<lambda>hashName bytes. hashName @ '':'' @ bytes),
       client_fails = (\<lambda>_. None),
       blob_exists = (\<lambda>_ _. Inr (Some published)),
       upload_fails = (\<lambda>_ _ _. None),
       cosmos_client_fails = None,
       proc_fails = (\<lambda>_. None),
       url_path = (\<lambda>_. Some ''/stable/c0ffee/a.zip''),
       max_retries = 0 \<rparr>"

text \<open>The container client that \<open>main\<close> builds for the primary store.\<close>

definition primary_client :: "world \<Rightarrow> string \<Rightarrow> client" where
  "primary_client w quality =
     \<lparr> c_url = ''https://'' @ str_undefined (env w ''AZURE_STORAGE_ACCOUNT_2'')
               @ ''.blob.core.windows.net/'' @ quality,
       c_account = env w ''AZURE_STORAGE_ACCOUNT_2'',
       c_key = env w ''AZURE_STORAGE_ACCESS_KEY_2'' \<rparr>"

fun is_exists_call :: "event \<Rightarrow> bool" where
  "is_exists_call (ExistsCall _ _) = True"
| "is_exists_call _ = False"

fun is_console :: "event \<Rightarrow> bool" where
  "is_console (ConsoleLog _) = True"
| "is_console (ConsoleError _) = True"
| "is_console _ = False"

section \<open>Language-pack synchronizer (build/lib/locFunc.ts)\<close>

subsection \<open>String methods\<close>

text \<open>
  The string methods the file uses, on \<open>string\<close>. \<open>indexOf\<close> and \<open>lastIndexOf\<close> answer
  -1 when the character does not occur; \<open>substr\<close> with one argument and \<open>substring\<close>
  clamp their arguments as JavaScript does; \<open>replace\<close> with a string pattern replaces
  the first occurrence only (no replacement in the file contains a dollar sign).
\<close>

fun index_in :: "char \<Rightarrow> string \<Rightarrow> nat option" where
  "index_in c [] = None"
| "index_in c (x # xs) = (if x = c then Some 0 else map_option Suc (index_in c xs))"

definition indexOf :: "string \<Rightarrow> char \<Rightarrow> int \<Rightarrow> int" where
  "indexOf s c position =
     (let k = min (nat position) (length s) in
      case index_in c (drop k s) of None \<Rightarrow> - 1 | Some i \<Rightarrow> int (k + i))"

definition lastIndexOf :: "string \<Rightarrow> char \<Rightarrow> int" where
  "lastIndexOf s c =
     (case index_in c (rev s) of None \<Rightarrow> - 1 | Some i \<Rightarrow> int (length s) - 1 - int i)"

definition substr :: "string \<Rightarrow> int \<Rightarrow> string" where
  "substr s start =
     (if start < 0 then drop (nat (int (length s) + start)) s else drop (nat start) s)"

definition substring :: "string \<Rightarrow> int \<Rightarrow> int \<Rightarrow> string" where
  "substring s indexStart indexEnd =
     (let a = min (nat indexStart) (length s); b = min (nat indexEnd) (length s)
      in take (max a b - min a b) (drop (min a b) s))"

fun replace :: "string \<Rightarrow> string \<Rightarrow> string \<Rightarrow> string" where
  "replace [] pattern replacement = (if pattern = [] then replacement else [])"
| "replace (c # s) pattern replacement =
     (if prefix pattern (c # s) then replacement @ drop (length pattern) (c # s)
      else c # replace s pattern replacement)"

definition startsWith :: "string \<Rightarrow> string \<Rightarrow> bool" where
  "startsWith s searchString = prefix searchString s"

subsection \<open>Objects\<close>

text \<open>
  An object used as a dictionary is the list of its own properties in insertion order.
  Reading a key is \<open>map_of\<close>; assigning to a key replaces the value in place or appends
  the key (\<open>AList.update\<close>); \<open>delete\<close> removes it (\<open>AList.delete\<close>). The keys of an object
  are distinct. Inherited properties and the special order of integer-like keys are not
  modelled: keys here are resource paths and extension names.
\<close>

type_synonym 'v obj = "(string \<times> 'v) list"

definition obj_assign :: "'v obj \<Rightarrow> 'v obj \<Rightarrow> 'v obj" where
  "obj_assign target source = fold (\<lambda>(k, v). AList.update k v) source target"

text \<open>The object literal \<open>{ ...a, ...b }\<close>.\<close>

definition spread2 :: "'v obj \<Rightarrow> 'v obj \<Rightarrow> 'v obj" where
  "spread2 a b = obj_assign (obj_assign [] a) b"

subsection \<open>Catalogs and files\<close>

text \<open>
  \<open>i18n.I18nPack\<close>: a version and the contents, an object from resource path to message
  map. The type \<open>'m\<close> of message maps is left open: the functions below only move message
  maps around.
\<close>

record 'm I18nPack =
  pack_version :: string
  pack_contents :: "'m obj"

text \<open>
  The text of a catalog file. \<open>JSON.stringify(result, null, '\t')\<close> is a function of the
  object \<open>result\<close>, whose keys are the empty string (the header lines), \<open>version\<close> and
  \<open>contents\<close>, in this order; the text is determined by these three values and by
  whether the line ends were rewritten to CRLF. Equal records are byte-identical texts.
\<close>

record 'm catalog_text =
  ct_header :: "string list"
  ct_version :: string
  ct_contents :: "'m obj"
  ct_crlf :: bool

record 'm File =
  file_path :: string
  file_contents :: "'m catalog_text"

text \<open>
  What the functions read from their host: \<open>process.platform\<close>, \<open>path.join\<close>,
  \<open>path.basename\<close> with an extension, and \<open>JSON.parse(fs.readFileSync(p).toString()).contents\<close>
  for a path \<open>p\<close>, which throws when the file is missing or is not JSON and is \<open>None\<close>
  when the parsed object has no \<open>contents\<close>.
\<close>

record 'm host =
  process_platform :: string
  path_join :: "string list \<Rightarrow> string"
  path_basename :: "string \<Rightarrow> string \<Rightarrow> string"
  read_contents :: "string \<Rightarrow> error + 'm obj option"

text \<open>Reading a catalog text back: \<open>JSON.parse\<close> of it, then \<open>.contents\<close>.\<close>

definition parsed_contents :: "'m catalog_text \<Rightarrow> 'm obj option" where
  "parsed_contents t = Some (ct_contents t)"

definition header_lines :: "string list" where
  "header_lines =
     [''--------------------------------------------------------------------------------------------'',
      ''Copyright (c) Microsoft Corporation. All rights reserved.'',
      ''Licensed under the MIT License. See License.txt in the project root for license information.'',
      ''--------------------------------------------------------------------------------------------'',
      ''Do not edit this file. It is machine generated.'']"

subsection \<open>updateMainI18nFile\<close>

text \<open>The loop that deletes the SQL strings that are no longer part of the product.\<close>

definition delete_stale :: "'m obj \<Rightarrow> 'm obj \<Rightarrow> 'm obj" where
  "delete_stale objectContents messages_contents =
     fold (\<lambda>contentKey oc.
             if startsWith contentKey ''sql'' \<and> map_of messages_contents contentKey = None
             then AList.delete contentKey oc else oc)
          (map fst objectContents) objectContents"

definition updateMainI18nFile ::
  "'m host \<Rightarrow> string \<Rightarrow> string \<Rightarrow> 'm I18nPack \<Rightarrow> error + 'm File" where
  "updateMainI18nFile h existingTranslationFilePath originalFilePath messages =
     (let currFilePath = path_join h [existingTranslationFilePath @ ''.i18n.json''] in
      case read_contents h currFilePath of
        Inl e \<Rightarrow> Inl e
      | Inr None \<Rightarrow>
          Inl (ErrorObj ''TypeError: Cannot convert undefined or null to object'')
      | Inr (Some objectContents) \<Rightarrow>
          (let objectContents' = delete_stale objectContents (pack_contents messages);
               messages' = messages\<lparr>pack_contents :=
                              spread2 objectContents' (pack_contents messages)\<rparr>;
               content = \<lparr> ct_header = header_lines,
                            ct_version = pack_version messages',
                            ct_contents = pack_contents messages',
                            ct_crlf = (process_platform h = ''win32'') \<rparr>
           in Inr \<lparr> file_path = path_join h [originalFilePath @ ''.i18n.json''],
                    file_contents = content \<rparr>))"

text \<open>
  A sample host and catalog: an existing main catalog with one VS Code key and two SQL
  keys, and a new message set that keeps one SQL key, drops one and adds one.
\<close>

definition host_sample :: "(string \<times> string) list obj \<Rightarrow> (string \<times> string) list host" where
  "host_sample existing =
     \<lparr> process_platform = ''win32'',
       path_join = concat,
       path_basename = (\<lambda>p ext. p),
       read_contents = (\<lambda>p. if p = ''translations/main.i18n.json'' then Inr (Some existing)
                             else Inl (Rejected ''ENOENT'')) \<rparr>"

definition existing_sample :: "(string \<times> string) list obj" where
  "existing_sample =
     [(''vs/base/common/errors'', [(''stack'', ''Pile'')]),
      (''sql/removed'', [(''gone'', ''Parti'')]),
      (''sql/kept'', [(''ok'', ''Ancien'')])]"

definition messages_sample :: "(string \<times> string) list I18nPack" where
  "messages_sample =
     \<lparr> pack_version = ''1.0.0'',
       pack_contents = [(''sql/kept'', [(''ok'', ''Nouveau'')]),
                        (''sql/added'', [(''hi'', ''Salut'')])] \<rparr>"

subsection \<open>modifyI18nPackFiles\<close>

record 'm ParsedXLF =
  xlf_messages :: 'm
  xlf_originalFilePath :: string
  xlf_language :: string

record TranslationPath =
  tp_id :: string
  tp_resourceName :: string

text \<open>An XLIFF file as the stream delivers it: its relative path and its text.\<close>

record xlf_input =
  xlf_relative :: string
  xlf_contents :: string

text \<open>
  What \<open>modifyI18nPackFiles\<close> takes from \<open>./i18n\<close>, which is not among the sources: the
  pack version, the two parsers (a rejected parse is \<open>Inl\<close>) and \<open>createI18nFile\<close>. And
  \<open>message_has m k\<close>: whether reading the property \<open>k\<close> of a parsed message map \<open>m\<close> gives
  something other than \<open>undefined\<close>.
\<close>

record 'm i18n_module =
  i18nPackVersion :: string
  XLF_parsePseudo :: "string \<Rightarrow> error + 'm ParsedXLF list"
  XLF_org_parse :: "string \<Rightarrow> error + 'm ParsedXLF list"
  createI18nFile :: "string \<Rightarrow> 'm I18nPack \<Rightarrow> 'm File"
  message_has :: "'m \<Rightarrow> string \<Rightarrow> bool"

text \<open>
  \<open>mainPack\<close>, \<open>extensionsPacks\<close> and their \<open>contents\<close> are object literals, so they
  inherit the properties of \<open>Object.prototype\<close>. Reading one of these names from an object
  that has no own property of the name gives the inherited value, which is truthy and
  has no \<open>contents\<close>; assigning to the key \<open>__proto__\<close> replaces the object's prototype by
  the assigned object and stores no own property.
\<close>

definition Object_prototype_names :: "string list" where
  "Object_prototype_names =
     [''constructor'', ''__defineGetter__'', ''__defineSetter__'', ''hasOwnProperty'',
      ''__lookupGetter__'', ''__lookupSetter__'', ''isPrototypeOf'', ''propertyIsEnumerable'',
      ''toString'', ''valueOf'', ''__proto__'', ''toLocaleString'']"

text \<open>
  The variables the two stream callbacks share. Besides the own properties of the two
  \<open>contents\<close> objects the state keeps the prototype a \<open>contents\<close> object has been given by
  an assignment to \<open>__proto__\<close>: of the main pack, and of the extension packs by resource.
\<close>

record 'm packs =
  mainPack :: "'m I18nPack"
  mainPack_proto :: "'m option"
  extensionsPacks :: "'m I18nPack obj"
  extensionsPacks_proto :: "'m obj"
  errors :: "error list"

text \<open>
  The body of \<open>resolvedFiles.forEach\<close> for one parsed file of the resource. For a resource
  other than sql that has no pack of its own and is named like a property of
  \<open>Object.prototype\<close>, \<open>extensionsPacks[resource]\<close> is the inherited value, no pack is
  created, and the assignment to \<open>extPack.contents[...]\<close> throws a TypeError.
\<close>

definition route_file ::
  "string \<Rightarrow> string \<Rightarrow> 'm ParsedXLF \<Rightarrow> 'm packs \<Rightarrow> error + 'm packs" where
  "route_file resource packVersion file st =
     (let path = xlf_originalFilePath file;
          firstSlash = indexOf path (CHR ''/'') 0
      in
      if resource \<noteq> ''sql'' then
        (if map_of (extensionsPacks st) resource = None
            \<and> resource \<in> set Object_prototype_names
         then Inl (ErrorObj ''TypeError: Cannot set properties of undefined'')
         else
           (let extPack = (case map_of (extensionsPacks st) resource of
                             Some p \<Rightarrow> p
                           | None \<Rightarrow> \<lparr> pack_version = packVersion, pack_contents = [] \<rparr>);
                secondSlash = indexOf path (CHR ''/'') (firstSlash + 1);
                key = substr path (secondSlash + 1)
            in
            if key = ''__proto__'' then
              Inr (st\<lparr>extensionsPacks := AList.update resource extPack (extensionsPacks st),
                      extensionsPacks_proto :=
                        AList.update resource (xlf_messages file) (extensionsPacks_proto st)\<rparr>)
            else
              Inr (st\<lparr>extensionsPacks :=
                        AList.update resource
                          (extPack\<lparr>pack_contents :=
                              AList.update key (xlf_messages file) (pack_contents extPack)\<rparr>)
                          (extensionsPacks st)\<rparr>)))
      else
        (let key = substr path (firstSlash + 1) in
         if key = ''__proto__'' then Inr (st\<lparr>mainPack_proto := Some (xlf_messages file)\<rparr>)
         else
           Inr (st\<lparr>mainPack := (mainPack st)\<lparr>pack_contents :=
                  AList.update key (xlf_messages file) (pack_contents (mainPack st))\<rparr>\<rparr>)))"

text \<open>
  \<open>resolvedFiles.forEach\<close>: the files are routed in order, and the first one that throws
  ends the loop; what the earlier files have stored stays.
\<close>

fun route_files ::
  "string \<Rightarrow> string \<Rightarrow> 'm ParsedXLF list \<Rightarrow> 'm packs \<Rightarrow> 'm packs \<times> error option" where
  "route_files resource packVersion [] st = (st, None)"
| "route_files resource packVersion (file # files) st =
     (case route_file resource packVersion file st of
        Inl e \<Rightarrow> (st, Some e)
      | Inr st' \<Rightarrow> route_files resource packVersion files st')"

text \<open>
  The first stream callback, with the settlement of the parse promise: the resource name
  is the base name without \<open>.xlf\<close> and without its last dot-separated part; a resolved
  parse routes its files, and the reason of a rejected parse, or what the routing
  throws, is pushed on \<open>errors\<close> by the \<open>catch\<close> handler.
\<close>

definition resource_of :: "'m host \<Rightarrow> xlf_input \<Rightarrow> string" where
  "resource_of h xlf =
     (let rawResource = path_basename h (xlf_relative xlf) ''.xlf''
      in substring rawResource 0 (lastIndexOf rawResource (CHR ''.'')))"

definition parse_xlf :: "'m i18n_module \<Rightarrow> bool \<Rightarrow> xlf_input \<Rightarrow> error + 'm ParsedXLF list" where
  "parse_xlf i18n pseudo xlf =
     (let contents = xlf_contents xlf
      in if pseudo then XLF_parsePseudo i18n contents else XLF_org_parse i18n contents)"

definition write_xlf ::
  "'m host \<Rightarrow> 'm i18n_module \<Rightarrow> bool \<Rightarrow> xlf_input \<Rightarrow> 'm packs \<Rightarrow> 'm packs" where
  "write_xlf h i18n pseudo xlf st =
     (let resource = resource_of h xlf in
      case parse_xlf i18n pseudo xlf of
        Inr resolvedFiles \<Rightarrow>
          (case route_files resource (i18nPackVersion i18n) resolvedFiles st of
             (st', None) \<Rightarrow> st'
           | (st', Some reason) \<Rightarrow> st'\<lparr>errors := errors st' @ [reason]\<rparr>)
      | Inl reason \<Rightarrow> st\<lparr>errors := errors st @ [reason]\<rparr>)"

text \<open>
  What the returned stream does: the files it queues, whether it ends, the error it
  emits, and the translation paths pushed on the caller's array. An emitted error is
  either a single rejection reason or the array \<open>errors\<close>.
\<close>

datatype stream_error = Reason error | ErrorList "error list"

record 'm stream_result =
  queued :: "'m File list"
  ended :: bool
  emitted_error :: "stream_error option"
  resultingTranslationPaths :: "TranslationPath list"

text \<open>\<open>Promise.all(parsePromises)\<close> rejects with the first rejection among the parses.\<close>

definition first_rejection :: "(error + 'a) list \<Rightarrow> error option" where
  "first_rejection settled =
     (case filter isl settled of [] \<Rightarrow> None | r # _ \<Rightarrow> Some (projl r))"

definition emit_error :: "stream_error \<Rightarrow> TranslationPath list \<Rightarrow> 'm stream_result" where
  "emit_error reason paths =
     \<lparr> queued = [], ended = False, emitted_error = Some reason,
       resultingTranslationPaths = paths \<rparr>"

text \<open>
  \<open>updateMainI18nFile\<close> on a pack whose \<open>contents\<close> has been given a prototype:
  \<open>messages.contents[contentKey]\<close> then also finds what the prototype has, which
  \<open>inherited\<close> tells. Nothing else in the function reads inherited properties. On a pack
  whose \<open>contents\<close> has the prototype of an object literal no key that starts with sql is
  inherited, and the function is \<open>updateMainI18nFile\<close>.
\<close>

definition updateMainI18nFile_inherited ::
  "'m host \<Rightarrow> (string \<Rightarrow> bool) \<Rightarrow> string \<Rightarrow> string \<Rightarrow> 'm I18nPack \<Rightarrow> error + 'm File" where
  "updateMainI18nFile_inherited h inherited existingTranslationFilePath originalFilePath
      messages =
     (let currFilePath = path_join h [existingTranslationFilePath @ ''.i18n.json''] in
      case read_contents h currFilePath of
        Inl e \<Rightarrow> Inl e
      | Inr None \<Rightarrow>
          Inl (ErrorObj ''TypeError: Cannot convert undefined or null to object'')
      | Inr (Some objectContents) \<Rightarrow>
          (let objectContents' =
                 fold (\<lambda>contentKey oc.
                         if startsWith contentKey ''sql''
                            \<and> map_of (pack_contents messages) contentKey = None
                            \<and> \<not> inherited contentKey
                         then AList.delete contentKey oc else oc)
                      (map fst objectContents) objectContents;
               messages' = messages\<lparr>pack_contents :=
                              spread2 objectContents' (pack_contents messages)\<rparr>;
               content = \<lparr> ct_header = header_lines,
                            ct_version = pack_version messages',
                            ct_contents = pack_contents messages',
                            ct_crlf = (process_platform h = ''win32'') \<rparr>
           in Inr \<lparr> file_path = path_join h [originalFilePath @ ''.i18n.json''],
                    file_contents = content \<rparr>))"

text \<open>
  The whole stream on its input files, in the order in which the parses settle: the
  first callback for each file, then the second callback. The second callback reads the
  contents of the main pack through the prototype they have been given, if any;
  \<open>createI18nFile\<close> is given an extension pack with the own properties of its contents.
\<close>

definition settle_all :: "'m host \<Rightarrow> 'm i18n_module \<Rightarrow> bool \<Rightarrow> xlf_input list \<Rightarrow> 'm packs" where
  "settle_all h i18n pseudo xlfs =
     fold (write_xlf h i18n pseudo) xlfs
       \<lparr> mainPack = \<lparr> pack_version = i18nPackVersion i18n, pack_contents = [] \<rparr>,
         mainPack_proto = None,
         extensionsPacks = [], extensionsPacks_proto = [], errors = [] \<rparr>"

definition modifyI18nPackFiles ::
  "'m host \<Rightarrow> 'm i18n_module \<Rightarrow> string \<Rightarrow> TranslationPath list \<Rightarrow> bool \<Rightarrow> xlf_input list
     \<Rightarrow> 'm stream_result" where
  "modifyI18nPackFiles h i18n existingTranslationFolder translationPaths pseudo xlfs =
     (let st = settle_all h i18n pseudo xlfs
      in
      case first_rejection (map (parse_xlf i18n pseudo) xlfs) of
        Some reason \<Rightarrow> emit_error (Reason reason) translationPaths
      | None \<Rightarrow>
          if length (errors st) > 0 then emit_error (ErrorList (errors st)) translationPaths
          else
            (case (case mainPack_proto st of
                     None \<Rightarrow>
                       updateMainI18nFile h (existingTranslationFolder @ [CHR 0x5C] @ ''main'')
                         ''./main'' (mainPack st)
                   | Some proto \<Rightarrow>
                       updateMainI18nFile_inherited h (message_has i18n proto)
                         (existingTranslationFolder @ [CHR 0x5C] @ ''main'')
                         ''./main'' (mainPack st)) of
               Inl reason \<Rightarrow> emit_error (Reason reason) translationPaths
             | Inr translatedMainFile \<Rightarrow>
                 \<lparr> queued = translatedMainFile #
                     map (\<lambda>(extension, pack).
                            createI18nFile i18n (''extensions/'' @ extension) pack)
                         (extensionsPacks st),
                   ended = True,
                   emitted_error = None,
                   resultingTranslationPaths = translationPaths @
                     map (\<lambda>(extension, pack).
                            \<lparr> tp_id = extension,
                              tp_resourceName = ''extensions/'' @ extension @ ''.i18n.json'' \<rparr>)
                         (extensionsPacks st) \<rparr>))"

text \<open>
  Stated from the specification's words, for comparison with \<open>route_file\<close>: a path
  with its leading slash-delimited segment stripped is what follows the first slash, and
  nothing when there is no slash.
\<close>

definition strip_segment :: "string \<Rightarrow> string" where
  "strip_segment p = drop 1 (dropWhile (\<lambda>c. c \<noteq> CHR ''/'') p)"

text \<open>
  The two keys that \<open>route_file\<close> computes with \<open>indexOf\<close> and \<open>substr\<close>, in terms of
  segments: for the core resource and for any other resource.
\<close>

definition main_key :: "string \<Rightarrow> string" where
  "main_key path =
     (if CHR ''/'' \<in> set path then strip_segment path else path)"

definition ext_key :: "string \<Rightarrow> string" where
  "ext_key path =
     (if CHR ''/'' \<in> set path \<and> CHR ''/'' \<in> set (strip_segment path)
      then strip_segment (strip_segment path) else path)"

definition packs_empty :: "string \<Rightarrow> (string \<times> string) list packs" where
  "packs_empty packVersion =
     \<lparr> mainPack = \<lparr> pack_version = packVersion, pack_contents = [] \<rparr>,
       mainPack_proto = None,
       extensionsPacks = [], extensionsPacks_proto = [], errors = [] \<rparr>"

subsection \<open>refreshLangpacks: one localization\<close>

text \<open>
  An entry of \<open>localization.translations\<close>: its \<open>id\<close>, its \<open>path\<close> and whatever other
  properties it has. A localization contribution with the properties the function reads.
\<close>

record translation =
  tr_id :: string
  tr_path :: string
  tr_rest :: "(string \<times> string) list"

record localization =
  loc_languageId :: "string option"
  loc_languageName :: "string option"
  loc_localizedLanguageName :: "string option"
  loc_transifexId :: "string option"
  loc_translations :: "translation list"

text \<open>
  \<open>packageJSON\<close>: the localization contributions, and the rest of the manifest, which this
  part of the function does not read.
\<close>

record packageJSON =
  pkg_rest :: "(string \<times> string) list"
  pkg_localizations :: "localization list"

text \<open>The files on disk: catalog files and package descriptors, by path.\<close>

datatype 'm disk_file = CatalogFile "'m catalog_text" | PackageJson packageJSON

type_synonym 'm disk = "string \<Rightarrow> 'm disk_file option"

definition read_disk :: "'m disk \<Rightarrow> string \<Rightarrow> error + 'm obj option" where
  "read_disk d p =
     (case d p of
        None \<Rightarrow> Inl (Rejected ''ENOENT'')
      | Some (CatalogFile t) \<Rightarrow> Inr (parsed_contents t)
      | Some (PackageJson _) \<Rightarrow> Inr None)"

definition statSync_ok :: "'m disk \<Rightarrow> string \<Rightarrow> bool" where
  "statSync_ok d p = (d p \<noteq> None)"

text \<open>\<open>vinyl-fs\<close> \<open>dest\<close>: every queued file is written below the folder.\<close>

definition vfs_dest :: "'m host \<Rightarrow> string \<Rightarrow> 'm File list \<Rightarrow> 'm disk \<Rightarrow> 'm disk" where
  "vfs_dest h folder files d =
     fold (\<lambda>f d'. d'(path_join h [folder, file_path f] \<mapsto> CatalogFile (file_contents f)))
       files d"

text \<open>
  The first two loops of the \<open>end\<close> handler: the entries whose file is missing, then
  their removal with \<open>indexOf\<close> and \<open>splice\<close>, one occurrence for each. \<open>indexOf\<close> finds
  an entry by identity and \<open>remove1\<close> by equality; the two agree here, since an entry
  equal to a missing one has the same path and is missing as well. A path exists when
  the disk has a file there.
\<close>

definition nonExistantExtensions ::
  "'m host \<Rightarrow> 'm disk \<Rightarrow> string \<Rightarrow> translation list \<Rightarrow> translation list" where
  "nonExistantExtensions h d translationDataFolder translations =
     filter (\<lambda>curr. \<not> statSync_ok d
               (path_join h [translationDataFolder,
                             replace (tr_path curr) ''./translations'' '''']))
       translations"

definition splice_all :: "translation list \<Rightarrow> translation list \<Rightarrow> translation list" where
  "splice_all nonExistant translations = fold remove1 nonExistant translations"

text \<open>
  The inner loop of the third loop: the first entry with the path gets the id, and the
  flag says whether there was one.
\<close>

fun set_id_of_path :: "string \<Rightarrow> string \<Rightarrow> translation list \<Rightarrow> translation list \<times> bool" where
  "set_id_of_path finalPath newId [] = ([], False)"
| "set_id_of_path finalPath newId (t # ts) =
     (if tr_path t = finalPath then (t\<lparr>tr_id := newId\<rparr> # ts, True)
      else (case set_id_of_path finalPath newId ts of (ts', isFound) \<Rightarrow> (t # ts', isFound)))"

definition upsert :: "TranslationPath \<Rightarrow> translation list \<Rightarrow> translation list" where
  "upsert tp translations =
     (let finalPath = ''./translations/'' @ tp_resourceName tp in
      case set_id_of_path finalPath (tp_id tp) translations of
        (ts, isFound) \<Rightarrow>
          if \<not> isFound then ts @ [\<lparr> tr_id = tp_id tp, tr_path = finalPath, tr_rest = [] \<rparr>]
          else ts)"

definition reconcile :: "TranslationPath list \<Rightarrow> translation list \<Rightarrow> translation list" where
  "reconcile translationPaths translations = fold upsert translationPaths translations"

text \<open>
  The \<open>end\<close> handler. \<open>translationPaths\<close> is \<open>None\<close> when the error handler has set it to
  \<open>undefined\<close>. The result is the new translations list when the descriptor is written,
  and \<open>None\<close> when the handler does nothing.
\<close>

definition on_end ::
  "'m host \<Rightarrow> 'm disk \<Rightarrow> string \<Rightarrow> TranslationPath list option \<Rightarrow> translation list
     \<Rightarrow> translation list option" where
  "on_end h d translationDataFolder translationPaths translations =
     (case translationPaths of
        None \<Rightarrow> None
      | Some tps \<Rightarrow>
          Some (reconcile tps
                  (splice_all (nonExistantExtensions h d translationDataFolder translations)
                     translations)))"

definition quoted :: "string \<Rightarrow> string" where
  "quoted s = [CHR 0x22] @ s @ [CHR 0x22]"

definition falsy :: "string option \<Rightarrow> bool" where
  "falsy v = (v = None \<or> v = Some [])"

definition normalize_language :: "string \<Rightarrow> string" where
  "normalize_language languageId =
     (if languageId = ''zh-cn'' then ''zh-hans''
      else if languageId = ''zh-tw'' then ''zh-hant'' else languageId)"

text \<open>
  \<open>localization.transifexId || localization.languageId\<close>, normalised; the function is
  used on a localization whose \<open>languageId\<close> is not falsy.
\<close>

definition effective_language :: "localization \<Rightarrow> string" where
  "effective_language localization =
     normalize_language
       (case loc_transifexId localization of
          None \<Rightarrow> (case loc_languageId localization of None \<Rightarrow> [] | Some l \<Rightarrow> l)
        | Some t \<Rightarrow>
            if t = [] then (case loc_languageId localization of None \<Rightarrow> [] | Some l \<Rightarrow> l)
            else t)"

text \<open>The XLIFF files that \<open>gulp.src\<close> yields for the language.\<close>

definition xlf_batch ::
  "'m host \<Rightarrow> (string \<Rightarrow> xlf_input list) \<Rightarrow> string \<Rightarrow> string \<Rightarrow> xlf_input list" where
  "xlf_batch h gulp_src location languageId =
     gulp_src (path_join h [location, languageId, ''**'', ''*.xlf''])"

text \<open>
  The body of \<open>localizations.forEach\<close> for the localization at index \<open>i\<close>, with the
  pipeline run to its end: the XLIFF files \<open>gulp.src\<close> yields for the pattern go through
  \<open>modifyI18nPackFiles\<close>, the error handler sets \<open>translationPaths\<close> to \<open>undefined\<close>, the
  queued files are written, and when the stream ends the \<open>end\<close> handler runs. The result
  is the manifest in memory and the disk.
\<close>

definition import_localization ::
  "'m host \<Rightarrow> 'm i18n_module \<Rightarrow> (string \<Rightarrow> xlf_input list) \<Rightarrow> string \<Rightarrow> string
     \<Rightarrow> packageJSON \<Rightarrow> nat \<Rightarrow> 'm disk \<Rightarrow> error + packageJSON \<times> 'm disk" where
  "import_localization h i18n gulp_src location locExtFolder pkg i d =
     (let localization = pkg_localizations pkg ! i in
      if falsy (loc_languageId localization) \<or> falsy (loc_languageName localization)
         \<or> falsy (loc_localizedLanguageName localization)
      then Inl (ErrorObj (''Each localization contribution must define '' @ quoted ''languageId''
                          @ '', '' @ quoted ''languageName'' @ '' and ''
                          @ quoted ''localizedLanguageName'' @ '' properties.''))
      else
        (let languageId = effective_language localization;
             translationDataFolder = path_join h [locExtFolder, ''translations''];
             result = modifyI18nPackFiles (h\<lparr>read_contents := read_disk d\<rparr>) i18n
                        translationDataFolder []
                        (languageId = ''ps'')
                        (xlf_batch h gulp_src location languageId);
             translationPaths = (case emitted_error result of
                                   Some _ \<Rightarrow> None
                                 | None \<Rightarrow> Some (resultingTranslationPaths result));
             d1 = vfs_dest h translationDataFolder (queued result) d
         in
         if ended result then
           (case on_end h d1 translationDataFolder translationPaths
                   (loc_translations localization) of
              None \<Rightarrow> Inr (pkg, d1)
            | Some ts \<Rightarrow>
                (let pkg' = pkg\<lparr>pkg_localizations :=
                              (pkg_localizations pkg)
                                [i := localization\<lparr>loc_translations := ts\<rparr>]\<rparr>
                 in Inr (pkg', d1(path_join h [locExtFolder, ''package.json'']
                                   \<mapsto> PackageJson pkg'))))
         else Inr (pkg, d1)))"


text \<open>A sample descriptor, parser and disk for concrete runs.\<close>

definition translations_sample :: "translation list" where
  "translations_sample =
     [\<lparr> tr_id = ''vscode'', tr_path = ''./translations/main.i18n.json'', tr_rest = [] \<rparr>,
      \<lparr> tr_id = ''old.admin'', tr_path = ''./translations/extensions/admin.i18n.json'',
        tr_rest = [(''note'', ''kept'')] \<rparr>]"

definition i18n_sample :: "(string \<times> string) list i18n_module" where
  "i18n_sample =
     \<lparr> i18nPackVersion = ''1.0.0'',
       XLF_parsePseudo = (\<lambda>contents. Inr []),
       XLF_org_parse = (\<lambda>contents.
          if contents = ''broken'' then Inl (Rejected ''XLF parsing error'')
          else Inr [\<lparr> xlf_messages = [(''title'', contents)],
                      xlf_originalFilePath = ''extensions/admin/out/main'',
                      xlf_language = ''de'' \<rparr>]),
       createI18nFile = (\<lambda>originalFilePath messages.
          \<lparr> file_path = originalFilePath @ ''.i18n.json'',
            file_contents = \<lparr> ct_header = header_lines, ct_version = pack_version messages,
                              ct_contents = pack_contents messages, ct_crlf = False \<rparr> \<rparr>),
       message_has = (\<lambda>m k. map_of m k \<noteq> None) \<rparr>"

definition pkg_sample :: packageJSON where
  "pkg_sample =
     \<lparr> pkg_rest = [(''name'', ''ads-language-pack-de'')],
       pkg_localizations =
         [\<lparr> loc_languageId = Some ''de'', loc_languageName = Some ''German'',
            loc_localizedLanguageName = Some ''Deutsch'', loc_transifexId = None,
            loc_translations = translations_sample \<rparr>] \<rparr>"

definition disk_sample :: "(string \<times> string) list disk" where
  "disk_sample =
     [''i18n/ads-language-pack-de/package.json'' \<mapsto> PackageJson pkg_sample]"

subsection \<open>renameVscodeLangpacks: pruning the extension files\<close>

definition VSCODEExtensions :: "string list" where
  "VSCODEExtensions =
     [''bat'', ''builtin-notebook-renderers'', ''configuration-editing'', ''docker'',
      ''git-base'', ''github'', ''github-authentication'', ''ipynb'', ''javascript'', ''json'',
      ''json-language-features'', ''markdown'', ''markdown-language-features'',
      ''markdown-math'', ''media-preview'', ''merge-conflict'', ''microsoft-authentication'',
      ''powershell'', ''python'', ''r'', ''search-result'', ''simple-browser'', ''sql'',
      ''theme-abyss'', ''theme-defaults'', ''theme-kimbie-dark'', ''theme-monokai'',
      ''theme-monokai-dimmed'', ''theme-quietlight'', ''theme-red'', ''vscode-theme-seti'',
      ''theme-solarized-dark'', ''theme-solarized-light'', ''theme-tomorrow-night-blue'',
      ''xml'', ''yaml'']"

text \<open>
  The file tree, for the synchronous file-system calls of this function: the list of the
  paths that exist, files and directories, written with forward slashes.
  \<open>rimraf.sync\<close> removes a path and everything below it; \<open>readdirSync\<close> lists the names
  directly below a directory and throws when the directory is missing.
\<close>

type_synonym tree = "string list"

definition existsSync :: "tree \<Rightarrow> string \<Rightarrow> bool" where
  "existsSync t p = (p \<in> set t)"

definition rimraf_sync :: "string \<Rightarrow> tree \<Rightarrow> tree" where
  "rimraf_sync p t = filter (\<lambda>q. q \<noteq> p \<and> \<not> prefix (p @ ''/'') q) t"

definition entry_name :: "string \<Rightarrow> bool" where
  "entry_name n = (n \<noteq> [] \<and> n \<noteq> ''.'' \<and> n \<noteq> ''..'' \<and> CHR ''/'' \<notin> set n)"

definition readdirSync :: "tree \<Rightarrow> string \<Rightarrow> error + string list" where
  "readdirSync t p =
     (if p \<in> set t then
        Inr (remdups (filter entry_name
               (map (drop (length p + 1)) (filter (prefix (p @ ''/'')) t))))
      else Inl (Rejected ''ENOENT''))"

text \<open>
  \<open>path.join\<close> on POSIX for the segments used here, none of which is \<open>..\<close>: empty
  segments and \<open>.\<close> are dropped and the rest is joined with slashes.
\<close>

fun join_with :: "string \<Rightarrow> string list \<Rightarrow> string" where
  "join_with sep [] = []"
| "join_with sep [x] = x"
| "join_with sep (x # y # ys) = x @ sep @ join_with sep (y # ys)"

definition posix_join :: "string list \<Rightarrow> string" where
  "posix_join parts =
     (let segments = filter (\<lambda>s. s \<noteq> [] \<and> s \<noteq> ''.'') parts
      in if segments = [] then ''.'' else join_with ''/'' segments)"

definition locVSCODEFolder :: "string \<Rightarrow> string" where
  "locVSCODEFolder langId = posix_join [''.'', ''i18n'', ''vscode-language-pack-'' @ langId]"

definition vscode_translationDataFolder :: "string \<Rightarrow> string" where
  "vscode_translationDataFolder langId = posix_join [locVSCODEFolder langId, ''translations'']"

definition xlfFolder :: string where
  "xlfFolder = posix_join [''.'', ''resources'', ''xlf'']"

definition shortExtensionFileName :: "string \<Rightarrow> string" where
  "shortExtensionFileName extensionFileName =
     replace (replace extensionFileName ''ms-vscode.'' ''vscode.'') ''vscode.'' ''''"

definition xlfPath :: "string \<Rightarrow> string \<Rightarrow> string" where
  "xlfPath langId extensionFileName =
     posix_join [xlfFolder, langId,
                 replace (shortExtensionFileName extensionFileName) ''.i18n.json'' ''.xlf'']"

text \<open>
  \<open>filePath\<close> and \<open>translationDataFolder\<close> of this function, under names of their own.
\<close>

definition extension_filePath :: "string \<Rightarrow> string \<Rightarrow> string" where
  "extension_filePath langId extensionFileName =
     posix_join [vscode_translationDataFolder langId, ''extensions'', extensionFileName]"

text \<open>The condition under which the loop leaves a file alone.\<close>

definition retained :: "tree \<Rightarrow> string \<Rightarrow> string \<Rightarrow> bool" where
  "retained t langId extensionFileName =
     (existsSync t (xlfPath langId extensionFileName)
      \<or> replace (shortExtensionFileName extensionFileName) ''.i18n.json'' ''''
           \<in> set VSCODEExtensions)"

text \<open>The body of the loop over \<open>totalExtensions\<close>, and the block around it.\<close>

definition prune_step :: "string \<Rightarrow> string \<Rightarrow> tree \<Rightarrow> tree" where
  "prune_step langId extensionFileName t =
     (if \<not> (existsSync t (xlfPath langId extensionFileName)
             \<or> replace (shortExtensionFileName extensionFileName) ''.i18n.json'' ''''
                  \<in> set VSCODEExtensions)
      then rimraf_sync (extension_filePath langId extensionFileName) t
      else t)"

definition prune_extension_files :: "string \<Rightarrow> tree \<Rightarrow> error + tree" where
  "prune_extension_files langId t =
     (if existsSync t (vscode_translationDataFolder langId) then
        (case readdirSync t (posix_join [vscode_translationDataFolder langId, ''extensions'']) of
           Inl e \<Rightarrow> Inl e
         | Inr totalExtensions \<Rightarrow> Inr (fold (prune_step langId) totalExtensions t))
      else Inr t)"

text \<open>A sample tree: a German VS Code pack with three extension files, and one XLIFF file.\<close>

definition tree_sample :: tree where
  "tree_sample =
     [''i18n'', ''i18n/vscode-language-pack-de'', ''i18n/vscode-language-pack-de/translations'',
      ''i18n/vscode-language-pack-de/translations/extensions'',
      ''i18n/vscode-language-pack-de/translations/extensions/vscode.git.i18n.json'',
      ''i18n/vscode-language-pack-de/translations/extensions/vscode.json.i18n.json'',
      ''i18n/vscode-language-pack-de/translations/extensions/ms-vscode.arc.i18n.json'',
      ''resources'', ''resources/xlf'', ''resources/xlf/de'', ''resources/xlf/de/arc.xlf'']"

text \<open>
  \<open>path.basename\<close> with an extension, on a POSIX path that does not end with a slash:
  what follows the last slash, without the extension when the name ends with it and is
  longer. And a host that has it.
\<close>

definition posix_basename :: "string \<Rightarrow> string \<Rightarrow> string" where
  "posix_basename p ext =
     (let base = rev (takeWhile (\<lambda>c. c \<noteq> CHR ''/'') (rev p))
      in if length ext < length base \<and> drop (length base - length ext) base = ext
         then take (length base - length ext) base else base)"

definition host_posix :: "(string \<times> string) list host" where
  "host_posix = (host_sample existing_sample)\<lparr>path_basename := posix_basename\<rparr>"

text \<open>
  A tree in which the XLIFF file of the extension arc has the name under which
  \<open>modifyI18nPackFiles\<close> reads it, with the language before the extension: a German
  VS Code pack with the catalog of the extension, and the German XLIFF file.
\<close>

definition tree_locale_sample :: tree where
  "tree_locale_sample =
     [''i18n'', ''i18n/vscode-language-pack-de'', ''i18n/vscode-language-pack-de/translations'',
      ''i18n/vscode-language-pack-de/translations/extensions'',
      ''i18n/vscode-language-pack-de/translations/extensions/vscode.json.i18n.json'',
      ''i18n/vscode-language-pack-de/translations/extensions/ms-vscode.arc.i18n.json'',
      ''resources'', ''resources/xlf'', ''resources/xlf/de'', ''resources/xlf/de/arc.de.xlf'']"

section \<open>Platform mapping\<close>

text \<open>
  C1. The four sample rows of the platform mapping: (client, win32, ia32, setup) gives
  win32; (client, win32, x64, archive) gives win32-x64-archive; (server, win32, arm64,
  setup) throws; (client, darwin, x64, setup) gives darwin. And \<open>getPlatform\<close> throws
  on exactly the combinations outside its decision table: outside the table no platform
  string is returned, inside the table one is.
\<close>

theorem getPlatform_table:
  "getPlatform ''client'' ''win32'' ''ia32'' ''setup'' = Inr ''win32''
   \<and> getPlatform ''client'' ''win32'' ''x64'' ''archive'' = Inr ''win32-x64-archive''
   \<and> getPlatform ''server'' ''win32'' ''arm64'' ''setup''
       = Inl (Thrown ''Unrecognized: server win32 arm64 setup'')
   \<and> getPlatform ''client'' ''darwin'' ''x64'' ''setup'' = Inr ''darwin''
   \<and> ((\<exists>e. getPlatform product os arch type = Inl e) = (\<not> in_table product os arch type))
   \<and> ((\<exists>p. getPlatform product os arch type = Inr p) = in_table product os arch type)"
proof -
  have a: "getPlatform ''client'' ''win32'' ''ia32'' ''setup'' = Inr ''win32''"
    by (simp add: getPlatform_def)
  have b: "getPlatform ''client'' ''win32'' ''x64'' ''archive'' = Inr ''win32-x64-archive''"
    by (simp add: getPlatform_def)
  have c: "getPlatform ''server'' ''win32'' ''arm64'' ''setup''
             = Inl (Thrown ''Unrecognized: server win32 arm64 setup'')"
    by (simp add: getPlatform_def unrecognized_def)
  have d: "getPlatform ''client'' ''darwin'' ''x64'' ''setup'' = Inr ''darwin''"
    by (simp add: getPlatform_def)
  have e: "(\<exists>e. getPlatform product os arch type = Inl e) = (\<not> in_table product os arch type)"
    unfolding getPlatform_def in_table_def Let_def by (simp split: if_splits)
  have f: "(\<exists>p. getPlatform product os arch type = Inr p) = in_table product os arch type"
    unfolding getPlatform_def in_table_def Let_def by (simp split: if_splits)
  from a b c d e f show ?thesis by blast
qed


section \<open>Fast-update flag\<close>

lemma prefix_sep:
  assumes "c \<notin> set xs"
  shows "prefix xs (ys @ c # zs) \<longleftrightarrow> prefix xs ys"
  using assms by (auto simp: prefix_append prefix_Cons)

lemma sublist_sep:
  assumes "c \<notin> set xs"
  shows "sublist xs (ys @ c # zs) \<longleftrightarrow> sublist xs ys \<or> sublist xs zs"
proof (induction ys)
  case Nil
  have "prefix xs (c # zs) \<longleftrightarrow> xs = []"
    using assms by (auto simp: prefix_Cons)
  then show ?case by (auto simp: sublist_Cons_right)
next
  case (Cons y ys)
  have "prefix xs (y # ys @ c # zs) \<longleftrightarrow> prefix xs (y # ys)"
    using prefix_sep [OF assms, of "y # ys" zs] by simp
  with Cons show ?case by (auto simp: sublist_Cons_right)
qed

lemma platform_win32:
  assumes "getPlatform product os arch type = Inr p" and "os = ''win32''"
  shows "sublist ''win32'' p"
proof -
  have a: "sublist ''win32'' (''win32'' @ r)" for r by (rule sublist_append_rightI)
  have b: "sublist ''win32'' (''server-'' @ ''win32'' @ r)" for r by (rule sublist_appendI)
  from assms a [of "[]"] a [of "''-archive''"] a [of "''-user''"]
    a [of "''-'' @ arch"] a [of "''-'' @ arch @ ''-archive''"] a [of "''-'' @ arch @ ''-user''"]
    b [of "[]"] b [of "''-web''"] b [of "''-'' @ arch"] b [of "''-'' @ arch @ ''-web''"]
  show ?thesis
    by (auto simp: getPlatform_def Let_def split: if_splits)
qed

lemma platform_other:
  assumes "getPlatform product os arch type = Inr p" and "os \<noteq> ''win32''"
    and "\<not> sublist ''win32'' arch"
  shows "\<not> sublist ''win32'' p"
  using assms
  by (auto simp: getPlatform_def Let_def sublist_Cons_right sublist_sep split: if_splits)

text \<open>
  C10, as stated, fails: \<open>getPlatform\<close> copies \<open>arch\<close> into the platform string unchecked,
  so for os = linux and arch = win32 it returns linux-snap-win32, which matches
  \<open>/win32/\<close>, and the asset record carries \<open>supportsFastUpdate = true\<close> although the os
  is not win32.
\<close>

theorem fastUpdate_linux_counterexample:
  "getPlatform ''client'' ''linux'' ''win32'' ''snap'' = Inr ''linux-snap-win32''
   \<and> ''linux'' \<noteq> ''win32''
   \<and> sublist ''win32'' ''linux-snap-win32''
   \<and> asset_supportsFastUpdate
        (build_asset ''linux-snap-win32'' (getRealType ''snap'') ''u'' ''h'' ''m'' ''s'' 3)
       = Some True"
  by (simp add: getPlatform_def build_asset_def getRealType_def sublist_Cons_right)

text \<open>
  C10, amended. For every input on which \<open>getPlatform\<close> succeeds: when os is win32 the
  platform string contains win32 and the asset record's \<open>supportsFastUpdate\<close> is present
  and true; when os is not win32 and \<open>arch\<close> does not itself contain win32, the platform
  string does not contain win32 and the flag is absent.
\<close>

theorem fastUpdate_iff_win32:
  assumes "getPlatform product os arch type = Inr p"
    and "os = ''win32'' \<or> \<not> sublist ''win32'' arch"
  shows "sublist ''win32'' p = (os = ''win32'')
         \<and> asset_supportsFastUpdate (build_asset p ty u h m s n)
             = (if os = ''win32'' then Some True else None)"
  using platform_win32 [OF assms(1)] platform_other [OF assms(1)] assms(2)
  by (auto simp: build_asset_def Let_def)

theorem fastUpdate_iff_win32_witness:
  "getPlatform ''server'' ''linux'' ''x64'' ''archive-unsigned'' = Inr ''server-linux-x64''
   \<and> \<not> sublist ''win32'' ''x64''
   \<and> asset_supportsFastUpdate
        (build_asset ''server-linux-x64'' ''archive-unsigned'' ''u'' ''h'' ''m'' ''s'' 3) = None
   \<and> getPlatform ''web'' ''win32'' ''x64'' ''archive'' = Inr ''server-win32-x64-web''
   \<and> sublist ''win32'' ''server-win32-x64-web''
   \<and> asset_supportsFastUpdate
        (build_asset ''server-win32-x64-web'' ''archive'' ''u'' ''h'' ''m'' ''s'' 3) = Some True"
proof -
  have a: "getPlatform ''server'' ''linux'' ''x64'' ''archive-unsigned''
             = Inr ''server-linux-x64''"
    by (simp add: getPlatform_def)
  have b: "\<not> sublist ''win32'' ''x64''" by (simp add: sublist_Cons_right)
  have c: "getPlatform ''web'' ''win32'' ''x64'' ''archive'' = Inr ''server-win32-x64-web''"
    by (simp add: getPlatform_def)
  from fastUpdate_iff_win32 [OF a, of "''archive-unsigned''" "''u''" "''h''" "''m''" "''s''" 3] b
    fastUpdate_iff_win32 [OF c, of "''archive''" "''u''" "''h''" "''m''" "''s''" 3] a c
  show ?thesis by simp
qed

section \<open>Runs of main\<close>

lemma fst_io_bind:
  "fst (io_bind m f) = fst m @ (case snd m of Inl e \<Rightarrow> [] | Inr v \<Rightarrow> fst (f v))"
  by (auto simp: io_bind_def split: prod.splits sum.splits)

lemma snd_io_bind:
  "snd (io_bind m f) = (case snd m of Inl e \<Rightarrow> Inl e | Inr v \<Rightarrow> snd (f v))"
  by (auto simp: io_bind_def split: prod.splits sum.splits)

lemma io_simps:
  "fst (io_pure r) = []" "snd (io_pure r) = r"
  "fst (console_log vs) = [ConsoleLog vs]" "snd (console_log vs) = Inr ()"
  "fst (doesAssetExist w c b) = [ExistsCall c b]"
  "snd (doesAssetExist w c b) = blob_exists w c b"
  "fst (new_ContainerClient w u a k) = []"
  "snd (new_ContainerClient w u a k) =
     (case client_fails w \<lparr> c_url = u, c_account = a, c_key = k \<rparr> of
        Some e \<Rightarrow> Inl e | None \<Rightarrow> Inr \<lparr> c_url = u, c_account = a, c_key = k \<rparr>)"
  by (simp_all add: io_pure_def console_log_def doesAssetExist_def new_ContainerClient_def
        Let_def)

lemma retry_events:
  assumes "\<And>k. \<forall>ev \<in> set (fst (fn k)). P ev"
  shows "\<forall>ev \<in> set (fst (retry n k fn)). P ev"
proof (induction n arbitrary: k)
  case 0
  then show ?case using assms by simp
next
  case (Suc n)
  show ?case
    using assms [of k] Suc [of "Suc k"]
    by (auto split: prod.splits sum.splits)
qed

lemma steps_no_exists_call:
  "\<forall>ev \<in> set (fst (main_publish_steps w p t q c fileName filePath b n h1 h2 acc cl)).
     \<not> is_exists_call ev"
proof -
  have u: "\<forall>ev \<in> set (fst (retry m 0 (\<lambda>attempt. promise_all2
          (uploadBlob w attempt c1 b filePath fileName)
          (uploadBlob w attempt c2 b filePath fileName)))). \<not> is_exists_call ev" for m c1 c2
    by (rule retry_events) (simp add: promise_all2_def uploadBlob_def)
  have s: "\<forall>ev \<in> set (fst (retry m 0 (\<lambda>attempt.
          ([StoredProcedure q c a],
           (case proc_fails w attempt of Some e \<Rightarrow> Inl e | None \<Rightarrow> Inr ()))))).
           \<not> is_exists_call ev" for m a
    by (rule retry_events) simp
  show ?thesis
    unfolding main_publish_steps_def Let_def
    using u s
    by (auto simp: fst_io_bind snd_io_bind io_simps split: sum.splits option.splits)
qed

lemma prepare_events:
  "\<forall>ev \<in> set (fst (main_prepare w product os arch unprocessedType fileName filePath)).
     is_console ev"
  unfolding main_prepare_def Let_def
  by (auto simp: fst_io_bind snd_io_bind io_simps split: sum.splits option.splits)

lemma console_not_publish:
  "is_console ev \<Longrightarrow> \<not> is_upload ev \<and> \<not> is_metadata_call ev"
  by (cases ev) simp_all

lemma prepare_no_publish:
  "filter is_upload
     (fst (main_prepare w product os arch unprocessedType fileName filePath)) = []"
  "filter is_metadata_call
     (fst (main_prepare w product os arch unprocessedType fileName filePath)) = []"
  using prepare_events [of w product os arch unprocessedType fileName filePath]
  by (auto simp: filter_empty_conv dest: console_not_publish)

lemma prepare_result:
  assumes "snd (main_prepare w product os arch unprocessedType fileName filePath) = Inr v"
  shows "\<exists>quality commit.
           env w ''VSCODE_QUALITY'' = Some quality
           \<and> env w ''BUILD_SOURCEVERSION'' = Some commit
           \<and> v_blobName v = commit @ ''/'' @ fileName
           \<and> v_blobContainerClient v =
               \<lparr> c_url = ''https://'' @ str_undefined (env w ''AZURE_STORAGE_ACCOUNT_2'')
                           @ ''.blob.core.windows.net/'' @ quality,
                 c_account = env w ''AZURE_STORAGE_ACCOUNT_2'',
                 c_key = env w ''AZURE_STORAGE_ACCESS_KEY_2'' \<rparr>"
  using assms
  unfolding main_prepare_def Let_def
  by (auto simp: snd_io_bind io_simps getEnv_def split: sum.splits option.splits)

lemma main_exists_true:
  assumes "ExistsCall c b
             \<in> set (fst (main w product os arch unprocessedType fileName filePath))"
    and "blob_exists w c b = Inr (Some True)"
  shows "snd (main w product os arch unprocessedType fileName filePath) = Inr ()
    \<and> uploads (fst (main w product os arch unprocessedType fileName filePath)) = []
    \<and> metadata_calls (fst (main w product os arch unprocessedType fileName filePath)) = []"
proof -
  have n: "ExistsCall c b
             \<notin> set (fst (main_publish_steps w p t q cm fileName filePath bn n h1 h2 acc cl))"
    for p t q cm bn n h1 h2 acc cl
    using steps_no_exists_call [of w p t q cm fileName filePath bn n h1 h2 acc cl] by auto
  have p: "ExistsCall c b
             \<notin> set (fst (main_prepare w product os arch unprocessedType fileName filePath))"
    using prepare_events [of w product os arch unprocessedType fileName filePath] by auto
  show ?thesis
    using assms
    unfolding main_def Let_def uploads_def metadata_calls_def
    by (auto simp: fst_io_bind snd_io_bind io_simps n p prepare_no_publish
             split: sum.splits option.splits)
qed

lemma main_exists_call:
  assumes "ExistsCall c b
             \<in> set (fst (main w product os arch unprocessedType fileName filePath))"
  shows "\<exists>v. snd (main_prepare w product os arch unprocessedType fileName filePath) = Inr v
            \<and> c = v_blobContainerClient v \<and> b = v_blobName v"
proof -
  have n: "ExistsCall c b
             \<notin> set (fst (main_publish_steps w p t q cm fileName filePath bn n h1 h2 acc cl))"
    for p t q cm bn n h1 h2 acc cl
    using steps_no_exists_call [of w p t q cm fileName filePath bn n h1 h2 acc cl] by auto
  have p: "ExistsCall c b
             \<notin> set (fst (main_prepare w product os arch unprocessedType fileName filePath))"
    using prepare_events [of w product os arch unprocessedType fileName filePath] by auto
  show ?thesis
    using assms
    unfolding main_def Let_def
    by (cases "snd (main_prepare w product os arch unprocessedType fileName filePath)")
       (auto simp: fst_io_bind snd_io_bind io_simps n p console_log_def
             split: sum.splits option.splits if_splits)
qed

lemma main_publishes:
  assumes "uploads (fst (main w product os arch unprocessedType fileName filePath)) \<noteq> []
           \<or> metadata_calls (fst (main w product os arch unprocessedType fileName filePath))
               \<noteq> []"
  shows "\<exists>c b x. ExistsCall c b
                    \<in> set (fst (main w product os arch unprocessedType fileName filePath))
            \<and> blob_exists w c b = Inr x \<and> x \<noteq> Some True"
  using assms
  unfolding main_def Let_def uploads_def metadata_calls_def
  by (auto simp: fst_io_bind snd_io_bind io_simps prepare_no_publish console_log_def
           split: sum.splits option.splits if_splits)

lemmas run_defs =
  main_def main_prepare_def main_publish_steps_def io_bind_def io_pure_def console_log_def
  getPlatform_def getRealType_def getEnv_def hashStream_def new_ContainerClient_def
  doesAssetExist_def uploadBlob_def promise_all2_def build_asset_def world_sample_def
  str_undefined_def str_null_def uploads_def metadata_calls_def Let_def

lemma main_sample_published:
  "main (world_sample True) ''client'' ''win32'' ''x64'' ''archive'' ''a.zip'' ''out/a.zip'' =
     ([ConsoleLog [LStr ''Creating asset...''], ConsoleLog [LStr ''Size:'', LNum 3],
       ConsoleLog [LStr ''SHA1:'', LStr ''sha1:zip''],
       ConsoleLog [LStr ''SHA256:'', LStr ''sha256:zip''],
       ExistsCall \<lparr> c_url = ''https://acct.blob.core.windows.net/stable'',
                    c_account = Some ''acct'', c_key = None \<rparr> ''c0ffee/a.zip'',
       ConsoleLog [LStr ''Blob stable, c0ffee/a.zip already exists, not publishing again.'']],
      Inr ())"
  by (simp add: run_defs)

lemma main_sample_fresh:
  "uploads (fst (main (world_sample False) ''client'' ''win32'' ''x64'' ''archive'' ''a.zip''
                   ''out/a.zip'')) =
     [UploadFile \<lparr> c_url = ''https://acct.blob.core.windows.net/stable'',
                    c_account = Some ''acct'', c_key = None \<rparr>
        ''c0ffee/a.zip'' ''out/a.zip'' ''a.zip'',
      UploadFile \<lparr> c_url = ''https://acct.blob.core.chinacloudapi.cn/stable'',
                    c_account = Some ''acct'', c_key = None \<rparr>
        ''c0ffee/a.zip'' ''out/a.zip'' ''a.zip'']"
  by (simp add: run_defs)

section \<open>Publish idempotency\<close>

text \<open>
  C6. In any run of \<open>main\<close>: when the existence check answers true, the run performs no
  blob upload (to either store) and no stored-procedure call, \<open>main\<close> resolves, and the
  process exits with status 0. The existence check of a run is the one for the blob
  named commit/fileName in the primary container; when that blob exists, no run
  uploads or calls the stored procedure, whether or not it gets as far as the check.
  And a run that performs an upload or a stored-procedure call has made the existence
  check and received an answer other than true.
\<close>

theorem publish_idempotent:
  assumes "main w product os arch unprocessedType fileName filePath = (evs, r)"
  shows "(ExistsCall c b \<in> set evs \<and> blob_exists w c b = Inr (Some True) \<longrightarrow>
            r = Inr () \<and> uploads evs = [] \<and> metadata_calls evs = []
            \<and> snd (script w [node, js, product, os, arch, unprocessedType, fileName,
                             filePath]) = 0)
       \<and> (ExistsCall c b \<in> set evs \<longrightarrow>
            (\<exists>quality commit.
               env w ''VSCODE_QUALITY'' = Some quality
               \<and> env w ''BUILD_SOURCEVERSION'' = Some commit
               \<and> b = commit @ ''/'' @ fileName \<and> c = primary_client w quality))
       \<and> (env w ''VSCODE_QUALITY'' = Some quality
           \<and> env w ''BUILD_SOURCEVERSION'' = Some commit
           \<and> blob_exists w (primary_client w quality) (commit @ ''/'' @ fileName)
               = Inr (Some True) \<longrightarrow>
            uploads evs = [] \<and> metadata_calls evs = [])
       \<and> (uploads evs \<noteq> [] \<or> metadata_calls evs \<noteq> [] \<longrightarrow>
            (\<exists>c' b' x. ExistsCall c' b' \<in> set evs \<and> blob_exists w c' b' = Inr x
                        \<and> x \<noteq> Some True))"
proof -
  let ?m = "main w product os arch unprocessedType fileName filePath"
  have e: "fst ?m = evs" and s: "snd ?m = r" using assms by simp_all
  have 1: "r = Inr () \<and> uploads evs = [] \<and> metadata_calls evs = []
            \<and> snd (script w [node, js, product, os, arch, unprocessedType, fileName,
                             filePath]) = 0"
    if h: "ExistsCall c b \<in> set evs" "blob_exists w c b = Inr (Some True)"
  proof -
    from main_exists_true [of c b w product os arch unprocessedType fileName filePath] h e s
    have a: "r = Inr () \<and> uploads evs = [] \<and> metadata_calls evs = []" by simp
    then show ?thesis using assms by (simp add: script_def)
  qed
  have 2: "\<exists>quality commit.
               env w ''VSCODE_QUALITY'' = Some quality
               \<and> env w ''BUILD_SOURCEVERSION'' = Some commit
               \<and> b' = commit @ ''/'' @ fileName \<and> c' = primary_client w quality"
    if h: "ExistsCall c' b' \<in> set evs" for c' b'
  proof -
    from main_exists_call [of c' b' w product os arch unprocessedType fileName filePath] h e
    obtain v where
      v: "snd (main_prepare w product os arch unprocessedType fileName filePath) = Inr v"
        "c' = v_blobContainerClient v" "b' = v_blobName v" by auto
    from prepare_result [OF v(1)] v(2,3) show ?thesis by (simp add: primary_client_def)
  qed
  have 3: "\<exists>c' b' x. ExistsCall c' b' \<in> set evs \<and> blob_exists w c' b' = Inr x
                      \<and> x \<noteq> Some True"
    if h: "uploads evs \<noteq> [] \<or> metadata_calls evs \<noteq> []"
    using main_publishes [of w product os arch unprocessedType fileName filePath] h e by simp
  have 4: "uploads evs = [] \<and> metadata_calls evs = []"
    if q: "env w ''VSCODE_QUALITY'' = Some quality"
      and c: "env w ''BUILD_SOURCEVERSION'' = Some commit"
      and x: "blob_exists w (primary_client w quality) (commit @ ''/'' @ fileName)
               = Inr (Some True)"
  proof (rule ccontr)
    assume "\<not> (uploads evs = [] \<and> metadata_calls evs = [])"
    then have "uploads evs \<noteq> [] \<or> metadata_calls evs \<noteq> []" by blast
    from 3 [OF this] obtain c' b' y where
      y: "ExistsCall c' b' \<in> set evs" "blob_exists w c' b' = Inr y" "y \<noteq> Some True"
      by blast
    from 2 [OF y(1)] q c have "c' = primary_client w quality" "b' = commit @ ''/'' @ fileName"
      by auto
    with y(2,3) x show False by simp
  qed
  from 1 2 [of c b] 3 4 show ?thesis by blast
qed

theorem publish_idempotent_witness:
  "env (world_sample True) ''VSCODE_QUALITY'' = Some ''stable''
   \<and> env (world_sample True) ''BUILD_SOURCEVERSION'' = Some ''c0ffee''
   \<and> primary_client (world_sample True) ''stable''
       = \<lparr> c_url = ''https://acct.blob.core.windows.net/stable'',
           c_account = Some ''acct'', c_key = None \<rparr>
   \<and> ExistsCall \<lparr> c_url = ''https://acct.blob.core.windows.net/stable'',
                 c_account = Some ''acct'', c_key = None \<rparr> ''c0ffee/a.zip''
     \<in> set (fst (main (world_sample True) ''client'' ''win32'' ''x64'' ''archive'' ''a.zip''
                     ''out/a.zip''))
   \<and> blob_exists (world_sample True)
        \<lparr> c_url = ''https://acct.blob.core.windows.net/stable'',
          c_account = Some ''acct'', c_key = None \<rparr> ''c0ffee/a.zip'' = Inr (Some True)
   \<and> snd (main (world_sample True) ''client'' ''win32'' ''x64'' ''archive'' ''a.zip''
             ''out/a.zip'') = Inr ()
   \<and> uploads (fst (main (world_sample True) ''client'' ''win32'' ''x64'' ''archive'' ''a.zip''
                      ''out/a.zip'')) = []
   \<and> metadata_calls (fst (main (world_sample True) ''client'' ''win32'' ''x64'' ''archive''
                             ''a.zip'' ''out/a.zip'')) = []
   \<and> snd (script (world_sample True)
            [''node'', ''createAsset.js'', ''client'', ''win32'', ''x64'', ''archive'',
             ''a.zip'', ''out/a.zip'']) = 0
   \<and> uploads (fst (main (world_sample False) ''client'' ''win32'' ''x64'' ''archive''
                      ''a.zip'' ''out/a.zip'')) \<noteq> []
   \<and> (\<exists>c' b' x. ExistsCall c' b'
          \<in> set (fst (main (world_sample False) ''client'' ''win32'' ''x64'' ''archive''
                          ''a.zip'' ''out/a.zip''))
        \<and> blob_exists (world_sample False) c' b' = Inr x \<and> x \<noteq> Some True)"
proof -
  let ?c = "\<lparr> c_url = ''https://acct.blob.core.windows.net/stable'',
                 c_account = Some ''acct'', c_key = None \<rparr>"
  have x: "blob_exists (world_sample True) ?c ''c0ffee/a.zip'' = Inr (Some True)"
    by (simp add: world_sample_def)
  have f: "main (world_sample False) ''client'' ''win32'' ''x64'' ''archive'' ''a.zip''
             ''out/a.zip''
           = (fst (main (world_sample False) ''client'' ''win32'' ''x64'' ''archive'' ''a.zip''
                ''out/a.zip''),
              snd (main (world_sample False) ''client'' ''win32'' ''x64'' ''archive'' ''a.zip''
                ''out/a.zip''))"
    by simp
  have u: "uploads (fst (main (world_sample False) ''client'' ''win32'' ''x64'' ''archive''
                      ''a.zip'' ''out/a.zip'')) \<noteq> []"
    by (simp add: main_sample_fresh)
  from publish_idempotent [OF main_sample_published, where c = ?c and b = "''c0ffee/a.zip''"
      and node = "''node''" and js = "''createAsset.js''"] x
    publish_idempotent [OF f, where c = ?c and b = "''c0ffee/a.zip''"
      and node = "''node''" and js = "''createAsset.js''"] u
  have rest: "ExistsCall ?c ''c0ffee/a.zip''
     \<in> set (fst (main (world_sample True) ''client'' ''win32'' ''x64'' ''archive'' ''a.zip''
                     ''out/a.zip''))
   \<and> blob_exists (world_sample True) ?c ''c0ffee/a.zip'' = Inr (Some True)
   \<and> snd (main (world_sample True) ''client'' ''win32'' ''x64'' ''archive'' ''a.zip''
             ''out/a.zip'') = Inr ()
   \<and> uploads (fst (main (world_sample True) ''client'' ''win32'' ''x64'' ''archive'' ''a.zip''
                      ''out/a.zip'')) = []
   \<and> metadata_calls (fst (main (world_sample True) ''client'' ''win32'' ''x64'' ''archive''
                             ''a.zip'' ''out/a.zip'')) = []
   \<and> snd (script (world_sample True)
            [''node'', ''createAsset.js'', ''client'', ''win32'', ''x64'', ''archive'',
             ''a.zip'', ''out/a.zip'']) = 0
   \<and> uploads (fst (main (world_sample False) ''client'' ''win32'' ''x64'' ''archive''
                      ''a.zip'' ''out/a.zip'')) \<noteq> []
   \<and> (\<exists>c' b' x. ExistsCall c' b'
          \<in> set (fst (main (world_sample False) ''client'' ''win32'' ''x64'' ''archive''
                          ''a.zip'' ''out/a.zip''))
        \<and> blob_exists (world_sample False) c' b' = Inr x \<and> x \<noteq> Some True)"
    by (simp add: main_sample_published)
  have v: "env (world_sample True) ''VSCODE_QUALITY'' = Some ''stable''"
    "env (world_sample True) ''BUILD_SOURCEVERSION'' = Some ''c0ffee''"
    "primary_client (world_sample True) ''stable'' = ?c"
    by (simp_all add: world_sample_def primary_client_def str_undefined_def)
  from v rest show ?thesis by (intro conjI) blast+
qed

section \<open>Publisher command line\<close>

text \<open>
  C9. With a number of arguments other than 8 in \<open>process.argv\<close> (the interpreter, the
  script and six positional arguments) the script prints the usage message and exits
  with status -1 without running \<open>main\<close>. With 8 it runs \<open>main\<close> and exits with status 0
  when \<open>main\<close> resolves (the already-published path included) and with status 1 when
  \<open>main\<close> throws or rejects.
\<close>

theorem script_exit_codes:
  "(length argv \<noteq> 8 \<longrightarrow>
      script w argv =
        ([ConsoleError [LStr ''Usage: node createAsset.js PRODUCT OS ARCH TYPE NAME FILE'']],
         - 1))
   \<and> (length argv = 8 \<longrightarrow>
        fst (script w argv) \<noteq> [] \<and>
        butlast (fst (script w argv))
          = fst (main w (argv ! 2) (argv ! 3) (argv ! 4) (argv ! 5) (argv ! 6) (argv ! 7))
        \<and> (case snd (main w (argv ! 2) (argv ! 3) (argv ! 4) (argv ! 5) (argv ! 6) (argv ! 7)) of
             Inr _ \<Rightarrow> snd (script w argv) = 0
                       \<and> last (fst (script w argv))
                           = ConsoleLog [LStr ''Asset successfully created'']
           | Inl err \<Rightarrow> snd (script w argv) = 1
                       \<and> last (fst (script w argv)) = ConsoleError [LErr err]))
   \<and> (length argv = 8
        \<and> ExistsCall c b
            \<in> set (fst (main w (argv ! 2) (argv ! 3) (argv ! 4) (argv ! 5) (argv ! 6) (argv ! 7)))
        \<and> blob_exists w c b = Inr (Some True) \<longrightarrow>
        snd (script w argv) = 0)"
proof -
  let ?m = "main w (argv ! 2) (argv ! 3) (argv ! 4) (argv ! 5) (argv ! 6) (argv ! 7)"
  have 1: "length argv \<noteq> 8 \<Longrightarrow> script w argv =
        ([ConsoleError [LStr ''Usage: node createAsset.js PRODUCT OS ARCH TYPE NAME FILE'']],
         - 1)"
    by (simp add: script_def)
  have 2: "length argv = 8 \<Longrightarrow> fst (script w argv) \<noteq> [] \<and>
        butlast (fst (script w argv)) = fst ?m
        \<and> (case snd ?m of
             Inr _ \<Rightarrow> snd (script w argv) = 0
                       \<and> last (fst (script w argv))
                           = ConsoleLog [LStr ''Asset successfully created'']
           | Inl err \<Rightarrow> snd (script w argv) = 1
                       \<and> last (fst (script w argv)) = ConsoleError [LErr err])"
    by (cases ?m) (auto simp: script_def split: sum.splits)
  have 3: "snd (script w argv) = 0"
    if "length argv = 8" "ExistsCall c b \<in> set (fst ?m)" "blob_exists w c b = Inr (Some True)"
    using main_exists_true [OF that(2,3)] that(1)
    by (cases ?m) (auto simp: script_def split: sum.splits)
  from 1 2 3 show ?thesis by blast
qed

theorem script_exit_codes_witness:
  "length [''node'', ''createAsset.js'', ''client''] \<noteq> 8
   \<and> script (world_sample True) [''node'', ''createAsset.js'', ''client''] =
        ([ConsoleError [LStr ''Usage: node createAsset.js PRODUCT OS ARCH TYPE NAME FILE'']],
         - 1)
   \<and> snd (script (world_sample True)
            [''node'', ''createAsset.js'', ''client'', ''win32'', ''x64'', ''archive'',
             ''a.zip'', ''out/a.zip'']) = 0
   \<and> snd (script (world_sample False)
            [''node'', ''createAsset.js'', ''server'', ''win32'', ''arm64'', ''setup'',
             ''a.zip'', ''out/a.zip'']) = 1"
proof -
  have a: "snd (main (world_sample False) ''server'' ''win32'' ''arm64'' ''setup'' ''a.zip''
             ''out/a.zip'') = Inl (Thrown ''Unrecognized: server win32 arm64 setup'')"
    by (simp add: run_defs unrecognized_def)
  from script_exit_codes [of "[''node'', ''createAsset.js'', ''client'']" "world_sample True"]
    script_exit_codes [of "[''node'', ''createAsset.js'', ''client'', ''win32'', ''x64'',
       ''archive'', ''a.zip'', ''out/a.zip'']" "world_sample True"]
    script_exit_codes [of "[''node'', ''createAsset.js'', ''server'', ''win32'', ''arm64'',
       ''setup'', ''a.zip'', ''out/a.zip'']" "world_sample False"]
    a
  show ?thesis
    by (simp add: main_sample_published)
qed

section \<open>Objects as association lists\<close>

lemma fold_delete_filter:
  "fold (\<lambda>k oc. if P k then AList.delete k oc else oc) ks oc
     = filter (\<lambda>p. \<not> (fst p \<in> set ks \<and> P (fst p))) oc"
proof (induction ks arbitrary: oc)
  case Nil
  then show ?case by simp
next
  case (Cons k ks)
  show ?case
  proof (cases "P k")
    case True
    have del: "AList.delete k oc = filter (\<lambda>p. fst p \<noteq> k) oc"
      by (induction oc) auto
    have "fold (\<lambda>k oc. if P k then AList.delete k oc else oc) (k # ks) oc
            = filter (\<lambda>p. \<not> (fst p \<in> set ks \<and> P (fst p))) (filter (\<lambda>p. fst p \<noteq> k) oc)"
      using True by (simp only: fold_simps Cons del if_True)
    also have "\<dots> = filter (\<lambda>p. \<not> (fst p \<in> set (k # ks) \<and> P (fst p))) oc"
      unfolding filter_filter using True by (intro filter_cong [OF refl]) auto
    finally show ?thesis .
  next
    case False
    have "fold (\<lambda>k oc. if P k then AList.delete k oc else oc) (k # ks) oc
            = filter (\<lambda>p. \<not> (fst p \<in> set ks \<and> P (fst p))) oc"
      using False by (simp add: Cons)
    also have "\<dots> = filter (\<lambda>p. \<not> (fst p \<in> set (k # ks) \<and> P (fst p))) oc"
      using False by (intro filter_cong [OF refl]) auto
    finally show ?thesis .
  qed
qed

lemma delete_stale_filter:
  "delete_stale oc mc
     = filter (\<lambda>p. \<not> (startsWith (fst p) ''sql'' \<and> map_of mc (fst p) = None)) oc"
proof -
  have "delete_stale oc mc
     = filter (\<lambda>p. \<not> (fst p \<in> set (map fst oc)
                   \<and> (startsWith (fst p) ''sql'' \<and> map_of mc (fst p) = None))) oc"
    unfolding delete_stale_def by (rule fold_delete_filter)
  also have "\<dots> = filter (\<lambda>p. \<not> (startsWith (fst p) ''sql'' \<and> map_of mc (fst p) = None)) oc"
    by (intro filter_cong [OF refl]) auto
  finally show ?thesis .
qed

lemma obj_assign_fresh:
  "distinct (map fst (acc @ a)) \<Longrightarrow> obj_assign acc a = acc @ a"
proof (induction a arbitrary: acc)
  case Nil
  then show ?case by (simp add: obj_assign_def)
next
  case (Cons p a)
  obtain k v where p: "p = (k, v)" by (cases p)
  have u: "AList.update k v acc = acc @ [(k, v)]"
    using Cons.prems p by (induction acc) auto
  have "obj_assign acc (p # a) = obj_assign (acc @ [(k, v)]) a"
    by (simp add: obj_assign_def p u)
  also have "\<dots> = (acc @ [(k, v)]) @ a"
    using Cons.prems p by (intro Cons.IH) simp
  finally show ?case by (simp add: p)
qed

lemma map_of_obj_assign:
  "distinct (map fst b) \<Longrightarrow> map_of (obj_assign a b) = map_of a ++ map_of b"
proof (induction b arbitrary: a)
  case Nil
  then show ?case by (simp add: obj_assign_def)
next
  case (Cons p b)
  obtain k v where p: "p = (k, v)" by (cases p)
  have "obj_assign a (p # b) = obj_assign (AList.update k v a) b"
    by (simp add: obj_assign_def p)
  moreover have "map_of (obj_assign (AList.update k v a) b) = map_of (AList.update k v a) ++ map_of b"
    using Cons.prems by (intro Cons.IH) simp
  moreover have "k \<notin> dom (map_of b)"
    using Cons.prems p by (simp add: dom_map_of_conv_image_fst)
  ultimately show ?case
    by (auto simp: p update_conv' fun_eq_iff map_add_def split: option.splits)
qed

lemma keys_obj_assign:
  "set (map fst (obj_assign a b)) = set (map fst a) \<union> set (map fst b)"
proof (induction b arbitrary: a)
  case Nil
  then show ?case by (simp add: obj_assign_def)
next
  case (Cons p b)
  obtain k v where p: "p = (k, v)" by (cases p)
  have "obj_assign a (p # b) = obj_assign (AList.update k v a) b"
    by (simp add: obj_assign_def p)
  then show ?case using Cons.IH [of "AList.update k v a"] dom_update [of k v a]
    by (auto simp: p)
qed

lemma distinct_obj_assign:
  "distinct (map fst a) \<Longrightarrow> distinct (map fst (obj_assign a b))"
proof (induction b arbitrary: a)
  case Nil
  then show ?case by (simp add: obj_assign_def)
next
  case (Cons p b)
  obtain k v where p: "p = (k, v)" by (cases p)
  have "obj_assign a (p # b) = obj_assign (AList.update k v a) b"
    by (simp add: obj_assign_def p)
  then show ?case using Cons.IH [of "AList.update k v a"] Cons.prems
    by (simp add: distinct_update)
qed

lemma obj_assign_same:
  "\<forall>(k, v) \<in> set b. map_of a k = Some v \<Longrightarrow> obj_assign a b = a"
proof (induction b)
  case Nil
  then show ?case by (simp add: obj_assign_def)
next
  case (Cons p b)
  obtain k v where p: "p = (k, v)" by (cases p)
  have "AList.update k v a = a" using Cons.prems p by (intro update_triv) simp
  then have "obj_assign a (p # b) = obj_assign a b" by (simp add: obj_assign_def p)
  with Cons show ?case by simp
qed

lemma spread2_distinct:
  "distinct (map fst a) \<Longrightarrow> spread2 a b = obj_assign a b"
  using obj_assign_fresh [of "[]" a] by (simp add: spread2_def)


lemma spread2_idem:
  assumes a: "distinct (map fst a)" and b: "distinct (map fst b)"
  shows "spread2 (delete_stale (spread2 (delete_stale a b) b) b) b = spread2 (delete_stale a b) b"
proof -
  define P where "P = (\<lambda>p :: string \<times> 'a. \<not> (startsWith (fst p) ''sql'' \<and> map_of b (fst p) = None))"
  define a' where "a' = delete_stale a b"
  define c where "c = spread2 a' b"
  have a'_filter: "a' = filter P a" by (simp add: a'_def P_def delete_stale_filter)
  have da: "distinct (map fst a')" using a by (simp add: a'_filter distinct_map_filter)
  have c: "c = obj_assign a' b" unfolding c_def using da by (rule spread2_distinct)
  have dc: "distinct (map fst c)" unfolding c using da by (rule distinct_obj_assign)
  have m: "map_of c = map_of a' ++ map_of b" unfolding c using b by (rule map_of_obj_assign)
  have keep: "P p" if "p \<in> set c" for p
  proof -
    from that have "fst p \<in> set (map fst c)" by simp
    then have "fst p \<in> set (map fst a') \<union> set (map fst b)"
      unfolding c keys_obj_assign .
    then show ?thesis
    proof
      assume "fst p \<in> set (map fst a')"
      then obtain q where "q \<in> set a'" "fst q = fst p" by auto
      then have "P q" by (simp add: a'_filter)
      with \<open>fst q = fst p\<close> show ?thesis by (simp add: P_def)
    next
      assume "fst p \<in> set (map fst b)"
      then have "map_of b (fst p) \<noteq> None"
        by (simp add: map_of_eq_None_iff)
      then show ?thesis by (simp add: P_def)
    qed
  qed
  have f: "delete_stale c b = c"
  proof -
    have "delete_stale c b = filter P c" by (simp add: P_def delete_stale_filter)
    also have "\<dots> = c" using keep by (intro filter_True) blast
    finally show ?thesis .
  qed
  have same: "\<forall>(k, v) \<in> set b. map_of c k = Some v"
  proof clarify
    fix k v assume "(k, v) \<in> set b"
    then have "map_of b k = Some v" using b by simp
    then show "map_of c k = Some v" by (simp add: m)
  qed
  have "spread2 (delete_stale c b) b = spread2 c b" by (simp only: f)
  also have "\<dots> = obj_assign c b" using dc by (rule spread2_distinct)
  also have "\<dots> = c" using same by (rule obj_assign_same)
  finally show ?thesis by (simp only: c_def a'_def)
qed


section \<open>Main catalog update\<close>



lemma updateMainI18nFile_sample:
  "updateMainI18nFile (host_sample existing_sample) ''translations/main'' ''./main''
     messages_sample
   = Inr \<lparr> file_path = ''./main.i18n.json'',
           file_contents =
             \<lparr> ct_header = header_lines, ct_version = ''1.0.0'',
               ct_contents =
                 [(''vs/base/common/errors'', [(''stack'', ''Pile'')]),
                  (''sql/kept'', [(''ok'', ''Nouveau'')]),
                  (''sql/added'', [(''hi'', ''Salut'')])],
               ct_crlf = True \<rparr> \<rparr>"
  by (simp add: updateMainI18nFile_def host_sample_def existing_sample_def messages_sample_def
        delete_stale_def spread2_def obj_assign_def startsWith_def Let_def)


text \<open>
  C7. Running \<open>updateMainI18nFile\<close> a second time with the same message set, on a host
  with the same platform whose existing catalog is the text written by the first run,
  returns the same file: the same path and the same catalog text.
\<close>

theorem catalog_merge_idempotent:
  assumes "read_contents h (path_join h [existingTranslationFilePath @ ''.i18n.json''])
             = Inr (Some existing)"
    and "distinct (map fst existing)"
    and "distinct (map fst (pack_contents messages))"
    and "updateMainI18nFile h existingTranslationFilePath originalFilePath messages = Inr f1"
    and "process_platform h' = process_platform h"
    and "path_join h' = path_join h"
    and "read_contents h' (path_join h' [existingTranslationFilePath @ ''.i18n.json''])
             = Inr (parsed_contents (file_contents f1))"
  shows "updateMainI18nFile h' existingTranslationFilePath originalFilePath messages = Inr f1"
proof -
  let ?b = "pack_contents messages"
  let ?c = "spread2 (delete_stale existing ?b) ?b"
  have f1: "f1 = \<lparr> file_path = path_join h [originalFilePath @ ''.i18n.json''],
              file_contents = \<lparr> ct_header = header_lines,
                                ct_version = pack_version messages,
                                ct_contents = ?c,
                                ct_crlf = (process_platform h = ''win32'') \<rparr> \<rparr>"
    using assms(1,4) by (simp add: updateMainI18nFile_def Let_def)
  have r: "read_contents h' (path_join h' [existingTranslationFilePath @ ''.i18n.json''])
             = Inr (Some ?c)"
    using assms(7) by (simp add: f1 parsed_contents_def)
  have "updateMainI18nFile h' existingTranslationFilePath originalFilePath messages
      = Inr \<lparr> file_path = path_join h [originalFilePath @ ''.i18n.json''],
              file_contents = \<lparr> ct_header = header_lines,
                                ct_version = pack_version messages,
                                ct_contents = spread2 (delete_stale ?c ?b) ?b,
                                ct_crlf = (process_platform h = ''win32'') \<rparr> \<rparr>"
    using r assms(5,6) by (simp add: updateMainI18nFile_def Let_def)
  then show ?thesis
    by (simp only: f1 spread2_idem [OF assms(2,3)])
qed

theorem catalog_merge_idempotent_witness:
  "updateMainI18nFile (host_sample existing_sample) ''translations/main'' ''./main''
     messages_sample
   = Inr \<lparr> file_path = ''./main.i18n.json'',
           file_contents =
             \<lparr> ct_header = header_lines, ct_version = ''1.0.0'',
               ct_contents =
                 [(''vs/base/common/errors'', [(''stack'', ''Pile'')]),
                  (''sql/kept'', [(''ok'', ''Nouveau'')]),
                  (''sql/added'', [(''hi'', ''Salut'')])],
               ct_crlf = True \<rparr> \<rparr>
   \<and> updateMainI18nFile
       (host_sample [(''vs/base/common/errors'', [(''stack'', ''Pile'')]),
                     (''sql/kept'', [(''ok'', ''Nouveau'')]),
                     (''sql/added'', [(''hi'', ''Salut'')])])
       ''translations/main'' ''./main'' messages_sample
   = Inr \<lparr> file_path = ''./main.i18n.json'',
           file_contents =
             \<lparr> ct_header = header_lines, ct_version = ''1.0.0'',
               ct_contents =
                 [(''vs/base/common/errors'', [(''stack'', ''Pile'')]),
                  (''sql/kept'', [(''ok'', ''Nouveau'')]),
                  (''sql/added'', [(''hi'', ''Salut'')])],
               ct_crlf = True \<rparr> \<rparr>"
proof -
  let ?out = "[(''vs/base/common/errors'', [(''stack'', ''Pile'')]),
                  (''sql/kept'', [(''ok'', ''Nouveau'')]),
                  (''sql/added'', [(''hi'', ''Salut'')])]"
  have r: "read_contents (host_sample existing_sample)
     (path_join (host_sample existing_sample) [''translations/main'' @ ''.i18n.json''])
     = Inr (Some existing_sample)"
    by (simp add: host_sample_def)
  have d1: "distinct (map fst existing_sample)" by (simp add: existing_sample_def)
  have d2: "distinct (map fst (pack_contents messages_sample))"
    by (simp add: messages_sample_def)
  have p: "process_platform (host_sample ?out) = process_platform (host_sample existing_sample)"
    "path_join (host_sample ?out) = path_join (host_sample existing_sample)"
    by (simp_all add: host_sample_def)
  have r2: "read_contents (host_sample ?out)
     (path_join (host_sample ?out) [''translations/main'' @ ''.i18n.json''])
     = Inr (parsed_contents (file_contents
         \<lparr> file_path = ''./main.i18n.json'',
           file_contents =
             \<lparr> ct_header = header_lines, ct_version = ''1.0.0'',
               ct_contents = ?out, ct_crlf = True \<rparr> \<rparr>))"
    by (simp add: host_sample_def parsed_contents_def)
  from catalog_merge_idempotent [OF r d1 d2 updateMainI18nFile_sample p r2]
    updateMainI18nFile_sample
  show ?thesis by simp
qed

section \<open>Routing of parsed files\<close>

lemma index_in_None: "c \<notin> set s \<Longrightarrow> index_in c s = None"
  by (induction s) auto

lemma index_in_Some: "c \<in> set s \<Longrightarrow> index_in c s = Some (length (takeWhile (\<lambda>x. x \<noteq> c) s))"
  by (induction s) auto

lemma strip_segment_drop:
  "strip_segment p = drop (Suc (length (takeWhile (\<lambda>c. c \<noteq> CHR ''/'') p))) p"
  by (simp add: strip_segment_def dropWhile_eq_drop)

lemma takeWhile_less: "c \<in> set s \<Longrightarrow> length (takeWhile (\<lambda>x. x \<noteq> c) s) < length s"
  by (induction s) auto

lemma first_slash:
  "indexOf path (CHR ''/'') 0
     = (if CHR ''/'' \<in> set path then int (length (takeWhile (\<lambda>c. c \<noteq> CHR ''/'') path)) else - 1)"
  by (simp add: indexOf_def index_in_None index_in_Some)

lemma substr_nat: "substr s (int n + 1) = drop (Suc n) s"
proof -
  have "nat (int n + 1) = Suc n" by simp
  then show ?thesis by (simp add: substr_def)
qed

lemma substr_zero: "substr s (- 1 + 1) = s" "substr s 0 = s"
  by (simp_all add: substr_def)

lemma indexOf_from:
  "n \<le> length s \<Longrightarrow>
     indexOf s c (int n) = (case index_in c (drop n s) of None \<Rightarrow> - 1 | Some i \<Rightarrow> int (n + i))"
  by (simp add: indexOf_def min_def)

lemma main_key_code:
  "substr path (indexOf path (CHR ''/'') 0 + 1) = main_key path"
  by (simp add: first_slash substr_nat substr_zero main_key_def strip_segment_drop)

lemma ext_key_code:
  "substr path (indexOf path (CHR ''/'') (indexOf path (CHR ''/'') 0 + 1) + 1) = ext_key path"
proof (cases "CHR ''/'' \<in> set path")
  case False
  have "indexOf path (CHR ''/'') 0 + 1 = 0" using False by (simp add: first_slash)
  moreover have "indexOf path (CHR ''/'') 0 = - 1" using False by (simp add: first_slash)
  ultimately show ?thesis
    using False by (simp add: ext_key_def substr_zero)
next
  case True
  let ?i = "length (takeWhile (\<lambda>c. c \<noteq> CHR ''/'') path)"
  have i: "indexOf path (CHR ''/'') 0 + 1 = int (Suc ?i)" using True by (simp add: first_slash)
  have m: "Suc ?i \<le> length path" using takeWhile_less [OF True] by simp
  have d: "drop (Suc ?i) path = strip_segment path" by (simp add: strip_segment_drop)
  note ixf = indexOf_from [OF m, of "CHR ''/''", unfolded d]
  show ?thesis
  proof (cases "CHR ''/'' \<in> set (strip_segment path)")
    case False
    have "indexOf path (CHR ''/'') (int (Suc ?i)) = - 1"
      using False ixf by (simp add: index_in_None)
    then show ?thesis
      using True False by (simp only: i substr_zero ext_key_def simp_thms if_False)
  next
    case s: True
    let ?j = "length (takeWhile (\<lambda>c. c \<noteq> CHR ''/'') (strip_segment path))"
    have "indexOf path (CHR ''/'') (int (Suc ?i)) = int (Suc ?i + ?j)"
      using s ixf by (simp add: index_in_Some)
    then have "substr path (indexOf path (CHR ''/'') (indexOf path (CHR ''/'') 0 + 1) + 1)
                 = drop (Suc (Suc ?i + ?j)) path"
      by (simp only: i substr_nat)
    also have "\<dots> = drop (Suc ?j) (drop (Suc ?i) path)"
      by (simp add: add.commute)
    also have "\<dots> = strip_segment (strip_segment path)"
      by (simp only: d) (simp add: strip_segment_drop)
    finally show ?thesis using True s by (simp add: ext_key_def)
  qed
qed

lemma main_key_slash:
  "CHR ''/'' \<in> set path \<Longrightarrow>
     substr path (indexOf path (CHR ''/'') 0 + 1) = strip_segment path"
  by (simp add: main_key_code main_key_def)

lemma ext_key_slash:
  "CHR ''/'' \<in> set path \<Longrightarrow> CHR ''/'' \<in> set (strip_segment path) \<Longrightarrow>
     substr path (indexOf path (CHR ''/'') (indexOf path (CHR ''/'') 0 + 1) + 1)
       = strip_segment (strip_segment path)"
  by (simp add: ext_key_code ext_key_def)

lemma route_file_sql:
  assumes "CHR ''/'' \<in> set (xlf_originalFilePath file)"
    and "strip_segment (xlf_originalFilePath file) \<noteq> ''__proto__''"
  shows "route_file ''sql'' packVersion file st
     = Inr (st\<lparr>mainPack := (mainPack st)\<lparr>pack_contents :=
              AList.update (strip_segment (xlf_originalFilePath file)) (xlf_messages file)
                (pack_contents (mainPack st))\<rparr>\<rparr>)"
  using assms by (simp add: route_file_def Let_def main_key_slash)

lemma route_file_extension:
  assumes "resource \<noteq> ''sql''"
    and "resource \<notin> set Object_prototype_names"
    and "CHR ''/'' \<in> set (xlf_originalFilePath file)"
    and "CHR ''/'' \<in> set (strip_segment (xlf_originalFilePath file))"
    and "strip_segment (strip_segment (xlf_originalFilePath file)) \<noteq> ''__proto__''"
  shows "route_file resource packVersion file st
     = Inr (st\<lparr>extensionsPacks := AList.update resource
             ((case map_of (extensionsPacks st) resource of
                 Some p \<Rightarrow> p
               | None \<Rightarrow> \<lparr> pack_version = packVersion, pack_contents = [] \<rparr>)
                \<lparr>pack_contents :=
                   AList.update (strip_segment (strip_segment (xlf_originalFilePath file)))
                    (xlf_messages file)
                    (pack_contents (case map_of (extensionsPacks st) resource of
                       Some p \<Rightarrow> p
                     | None \<Rightarrow> \<lparr> pack_version = packVersion, pack_contents = [] \<rparr>))\<rparr>)
             (extensionsPacks st)\<rparr>)"
  using assms by (simp add: route_file_def Let_def ext_key_slash)

text \<open>
  C3, amended. For every parsed message file whose original file path has the segments
  that are to be stripped, and whose remaining path is not \<open>__proto__\<close>: when the
  resource name is sql and the path has a slash, routing succeeds, the message map is
  stored in the main catalog under the path with its first segment stripped, and the
  extension catalogs are unchanged; when the resource name is not sql and not the name of
  a property of \<open>Object.prototype\<close>, and the path has two slashes, routing succeeds, the
  message map is stored in that resource's own extension catalog (created when absent)
  under the path with its first two segments stripped, and the main catalog and the
  other extension catalogs are unchanged.
\<close>

theorem routing_correct:
  "(resource = ''sql''
      \<and> CHR ''/'' \<in> set (xlf_originalFilePath file)
      \<and> strip_segment (xlf_originalFilePath file) \<noteq> ''__proto__'' \<longrightarrow>
      (\<exists>st'. route_file resource packVersion file st = Inr st'
         \<and> pack_contents (mainPack st')
             = AList.update (strip_segment (xlf_originalFilePath file)) (xlf_messages file)
                 (pack_contents (mainPack st))
         \<and> map_of (pack_contents (mainPack st')) (strip_segment (xlf_originalFilePath file))
             = Some (xlf_messages file)
         \<and> extensionsPacks st' = extensionsPacks st
         \<and> errors st' = errors st))
   \<and> (resource \<noteq> ''sql''
      \<and> resource \<notin> set Object_prototype_names
      \<and> CHR ''/'' \<in> set (xlf_originalFilePath file)
      \<and> CHR ''/'' \<in> set (strip_segment (xlf_originalFilePath file))
      \<and> strip_segment (strip_segment (xlf_originalFilePath file)) \<noteq> ''__proto__'' \<longrightarrow>
      (\<exists>st'. route_file resource packVersion file st = Inr st'
         \<and> mainPack st' = mainPack st
         \<and> (\<exists>pack. map_of (extensionsPacks st') resource = Some pack
              \<and> pack_contents pack
                  = AList.update (strip_segment (strip_segment (xlf_originalFilePath file)))
                      (xlf_messages file)
                      (case map_of (extensionsPacks st) resource of
                         Some p \<Rightarrow> pack_contents p | None \<Rightarrow> [])
              \<and> map_of (pack_contents pack)
                    (strip_segment (strip_segment (xlf_originalFilePath file)))
                  = Some (xlf_messages file))
         \<and> (\<forall>r. r \<noteq> resource \<longrightarrow>
               map_of (extensionsPacks st') r = map_of (extensionsPacks st) r)
         \<and> errors st' = errors st))"
proof -
  have 3: "pack_contents (case map_of (extensionsPacks st) resource of
                       Some p \<Rightarrow> p
                     | None \<Rightarrow> \<lparr> pack_version = packVersion, pack_contents = [] \<rparr>)
          = (case map_of (extensionsPacks st) resource of
                       Some p \<Rightarrow> pack_contents p | None \<Rightarrow> [])"
    by (simp split: option.splits)
  have a: "\<exists>st'. route_file resource packVersion file st = Inr st'
         \<and> pack_contents (mainPack st')
             = AList.update (strip_segment (xlf_originalFilePath file)) (xlf_messages file)
                 (pack_contents (mainPack st))
         \<and> map_of (pack_contents (mainPack st')) (strip_segment (xlf_originalFilePath file))
             = Some (xlf_messages file)
         \<and> extensionsPacks st' = extensionsPacks st
         \<and> errors st' = errors st"
    if "resource = ''sql''" "CHR ''/'' \<in> set (xlf_originalFilePath file)"
      "strip_segment (xlf_originalFilePath file) \<noteq> ''__proto__''"
    using that(1) route_file_sql [OF that(2,3), of packVersion st]
    by (simp add: update_conv')
  have b: "\<exists>st'. route_file resource packVersion file st = Inr st'
         \<and> mainPack st' = mainPack st
         \<and> (\<exists>pack. map_of (extensionsPacks st') resource = Some pack
              \<and> pack_contents pack
                  = AList.update (strip_segment (strip_segment (xlf_originalFilePath file)))
                      (xlf_messages file)
                      (case map_of (extensionsPacks st) resource of
                         Some p \<Rightarrow> pack_contents p | None \<Rightarrow> [])
              \<and> map_of (pack_contents pack)
                    (strip_segment (strip_segment (xlf_originalFilePath file)))
                  = Some (xlf_messages file))
         \<and> (\<forall>r. r \<noteq> resource \<longrightarrow>
               map_of (extensionsPacks st') r = map_of (extensionsPacks st) r)
         \<and> errors st' = errors st"
    if "resource \<noteq> ''sql''" "resource \<notin> set Object_prototype_names"
      "CHR ''/'' \<in> set (xlf_originalFilePath file)"
      "CHR ''/'' \<in> set (strip_segment (xlf_originalFilePath file))"
      "strip_segment (strip_segment (xlf_originalFilePath file)) \<noteq> ''__proto__''"
    using route_file_extension [OF that, of packVersion st]
    by (simp add: 3 update_conv')
  from a b show ?thesis by blast
qed

text \<open>
  C3, as stated, fails for some parsed message files. For the resource constructor,
  which names a property of \<open>Object.prototype\<close>, no extension catalog is created and
  routing throws; a batch that has such a file emits the error list with this error. For
  the resource admin-tool and the original file path
  extensions/admin-tool, which has one slash, the message map is stored under the whole
  path, while the path with two leading segments stripped is empty. For the resource sql
  and the path sql/__proto__ nothing is stored in the main catalog.
\<close>

theorem routing_counterexample:
  "route_file ''constructor'' ''1.0.0''
     \<lparr> xlf_messages = [(''title'', ''Titel'')],
       xlf_originalFilePath = ''extensions/constructor/out/main'', xlf_language = ''de'' \<rparr>
     (packs_empty ''1.0.0'')
   = Inl (ErrorObj ''TypeError: Cannot set properties of undefined'')
   \<and> emitted_error (modifyI18nPackFiles host_posix
        (i18n_sample\<lparr>XLF_org_parse := (\<lambda>contents.
            Inr [\<lparr> xlf_messages = [(''title'', ''Titel'')],
                   xlf_originalFilePath = ''extensions/constructor/out/main'',
                   xlf_language = ''de'' \<rparr>])\<rparr>)
        ''translations'' [] False
        [\<lparr> xlf_relative = ''constructor.de.xlf'', xlf_contents = ''<xliff/>'' \<rparr>])
     = Some (ErrorList [ErrorObj ''TypeError: Cannot set properties of undefined''])
   \<and> route_file ''admin-tool'' ''1.0.0''
     \<lparr> xlf_messages = [(''title'', ''Titel'')], xlf_originalFilePath = ''extensions/admin-tool'',
       xlf_language = ''de'' \<rparr> (packs_empty ''1.0.0'')
   = Inr ((packs_empty ''1.0.0'')
       \<lparr>extensionsPacks :=
          [(''admin-tool'',
            \<lparr> pack_version = ''1.0.0'',
              pack_contents = [(''extensions/admin-tool'', [(''title'', ''Titel'')])] \<rparr>)]\<rparr>)
   \<and> strip_segment (strip_segment ''extensions/admin-tool'') = ''''
   \<and> route_file ''sql'' ''1.0.0''
       \<lparr> xlf_messages = [(''title'', ''Titel'')], xlf_originalFilePath = ''sql/__proto__'',
         xlf_language = ''de'' \<rparr> (packs_empty ''1.0.0'')
     = Inr ((packs_empty ''1.0.0'')\<lparr>mainPack_proto := Some [(''title'', ''Titel'')]\<rparr>)
   \<and> pack_contents (mainPack (packs_empty ''1.0.0'')) = []"
proof -
  have k: "ext_key ''extensions/admin-tool'' = ''extensions/admin-tool''"
    "main_key ''sql/__proto__'' = ''__proto__''"
    "strip_segment (strip_segment ''extensions/admin-tool'') = []"
    by (simp_all add: ext_key_def main_key_def strip_segment_def)
  have 1: "route_file ''constructor'' ''1.0.0''
     \<lparr> xlf_messages = [(''title'', ''Titel'')],
       xlf_originalFilePath = ''extensions/constructor/out/main'', xlf_language = ''de'' \<rparr>
     (packs_empty ''1.0.0'')
   = Inl (ErrorObj ''TypeError: Cannot set properties of undefined'')"
    by (simp add: route_file_def packs_empty_def Object_prototype_names_def)
  have r: "resource_of host_posix
             \<lparr> xlf_relative = ''constructor.de.xlf'', xlf_contents = ''<xliff/>'' \<rparr>
           = ''constructor''"
    by (simp add: resource_of_def host_posix_def posix_basename_def Let_def substring_def
          lastIndexOf_def)
  have 2: "emitted_error (modifyI18nPackFiles host_posix
        (i18n_sample\<lparr>XLF_org_parse := (\<lambda>contents.
            Inr [\<lparr> xlf_messages = [(''title'', ''Titel'')],
                   xlf_originalFilePath = ''extensions/constructor/out/main'',
                   xlf_language = ''de'' \<rparr>])\<rparr>)
        ''translations'' [] False
        [\<lparr> xlf_relative = ''constructor.de.xlf'', xlf_contents = ''<xliff/>'' \<rparr>])
     = Some (ErrorList [ErrorObj ''TypeError: Cannot set properties of undefined''])"
    using 1
    by (simp add: modifyI18nPackFiles_def settle_all_def write_xlf_def r parse_xlf_def
          first_rejection_def emit_error_def i18n_sample_def packs_empty_def Let_def)
  have 3: "route_file ''admin-tool'' ''1.0.0''
     \<lparr> xlf_messages = [(''title'', ''Titel'')], xlf_originalFilePath = ''extensions/admin-tool'',
       xlf_language = ''de'' \<rparr> (packs_empty ''1.0.0'')
   = Inr ((packs_empty ''1.0.0'')
       \<lparr>extensionsPacks :=
          [(''admin-tool'',
            \<lparr> pack_version = ''1.0.0'',
              pack_contents = [(''extensions/admin-tool'', [(''title'', ''Titel'')])] \<rparr>)]\<rparr>)"
    by (simp add: route_file_def packs_empty_def Let_def ext_key_code k
          Object_prototype_names_def)
  have 4: "route_file ''sql'' ''1.0.0''
       \<lparr> xlf_messages = [(''title'', ''Titel'')], xlf_originalFilePath = ''sql/__proto__'',
         xlf_language = ''de'' \<rparr> (packs_empty ''1.0.0'')
     = Inr ((packs_empty ''1.0.0'')\<lparr>mainPack_proto := Some [(''title'', ''Titel'')]\<rparr>)"
    by (simp add: route_file_def packs_empty_def Let_def main_key_code k)
  have 5: "pack_contents (mainPack (packs_empty ''1.0.0'')) = []"
    by (simp add: packs_empty_def)
  from 1 2 3 k(3) 4 5 show ?thesis by simp
qed

theorem routing_correct_witness:
  "''sql'' = ''sql''
   \<and> CHR ''/'' \<in> set ''sql/workbench/browser/actions''
   \<and> strip_segment ''sql/workbench/browser/actions'' \<noteq> ''__proto__''
   \<and> (\<exists>st'. route_file ''sql'' ''1.0.0''
        \<lparr> xlf_messages = [(''title'', ''Titel'')],
          xlf_originalFilePath = ''sql/workbench/browser/actions'', xlf_language = ''de'' \<rparr>
        (packs_empty ''1.0.0'') = Inr st'
        \<and> map_of (pack_contents (mainPack st')) ''workbench/browser/actions''
            = Some [(''title'', ''Titel'')])
   \<and> ''admin-tool'' \<noteq> ''sql''
   \<and> ''admin-tool'' \<notin> set Object_prototype_names
   \<and> CHR ''/'' \<in> set ''extensions/admin-tool/out/main''
   \<and> CHR ''/'' \<in> set (strip_segment ''extensions/admin-tool/out/main'')
   \<and> strip_segment (strip_segment ''extensions/admin-tool/out/main'') \<noteq> ''__proto__''
   \<and> (\<exists>st' pack. route_file ''admin-tool'' ''1.0.0''
        \<lparr> xlf_messages = [(''title'', ''Titel'')],
          xlf_originalFilePath = ''extensions/admin-tool/out/main'', xlf_language = ''de'' \<rparr>
        (packs_empty ''1.0.0'') = Inr st'
        \<and> map_of (extensionsPacks st') ''admin-tool'' = Some pack
        \<and> map_of (pack_contents pack) ''out/main'' = Some [(''title'', ''Titel'')])"
proof -
  let ?f = "\<lparr> xlf_messages = [(''title'', ''Titel'')],
         xlf_originalFilePath = ''sql/workbench/browser/actions'', xlf_language = ''de'' \<rparr>"
  let ?g = "\<lparr> xlf_messages = [(''title'', ''Titel'')],
         xlf_originalFilePath = ''extensions/admin-tool/out/main'', xlf_language = ''de'' \<rparr>"
  have k: "strip_segment ''sql/workbench/browser/actions'' = ''workbench/browser/actions''"
    "strip_segment ''extensions/admin-tool/out/main'' = ''admin-tool/out/main''"
    "strip_segment ''admin-tool/out/main'' = ''out/main''"
    by (simp_all add: strip_segment_def)
  have s: "''sql'' = ''sql'' \<and> CHR ''/'' \<in> set (xlf_originalFilePath ?f)
      \<and> strip_segment (xlf_originalFilePath ?f) \<noteq> ''__proto__''"
    by (simp add: k)
  have n: "''admin-tool'' \<noteq> ''sql'' \<and> ''admin-tool'' \<notin> set Object_prototype_names
      \<and> CHR ''/'' \<in> set (xlf_originalFilePath ?g)
      \<and> CHR ''/'' \<in> set (strip_segment (xlf_originalFilePath ?g))
      \<and> strip_segment (strip_segment (xlf_originalFilePath ?g)) \<noteq> ''__proto__''"
    by (simp add: k Object_prototype_names_def)
  note a = routing_correct [of "''sql''" ?f "''1.0.0''" "packs_empty ''1.0.0''",
      THEN conjunct1, THEN mp, OF s]
  note b = routing_correct [of "''admin-tool''" ?g "''1.0.0''" "packs_empty ''1.0.0''",
      THEN conjunct2, THEN mp, OF n]
  from a obtain st1 where
    a1: "route_file ''sql'' ''1.0.0'' ?f (packs_empty ''1.0.0'') = Inr st1"
    and a2: "map_of (pack_contents (mainPack st1)) (strip_segment (xlf_originalFilePath ?f))
               = Some (xlf_messages ?f)"
    by blast
  from a2 have a3: "map_of (pack_contents (mainPack st1)) ''workbench/browser/actions''
      = Some [(''title'', ''Titel'')]"
    by (simp add: k)
  from b obtain st2 pack where
    b1: "route_file ''admin-tool'' ''1.0.0'' ?g (packs_empty ''1.0.0'') = Inr st2"
    and b2: "map_of (extensionsPacks st2) ''admin-tool'' = Some pack"
    and b3: "map_of (pack_contents pack)
               (strip_segment (strip_segment (xlf_originalFilePath ?g)))
             = Some (xlf_messages ?g)"
    by blast
  from b3 have b4: "map_of (pack_contents pack) ''out/main'' = Some [(''title'', ''Titel'')]"
    by (simp add: k)
  have c1: "\<exists>st'. route_file ''sql'' ''1.0.0'' ?f (packs_empty ''1.0.0'') = Inr st'
        \<and> map_of (pack_contents (mainPack st')) ''workbench/browser/actions''
            = Some [(''title'', ''Titel'')]"
    using a1 a3 by blast
  have c2: "\<exists>st' pack. route_file ''admin-tool'' ''1.0.0'' ?g (packs_empty ''1.0.0'') = Inr st'
        \<and> map_of (extensionsPacks st') ''admin-tool'' = Some pack
        \<and> map_of (pack_contents pack) ''out/main'' = Some [(''title'', ''Titel'')]"
    using b1 b2 b4 by blast
  from s n c1 c2 show ?thesis by (simp add: k)
qed

section \<open>Translation-path reconciliation\<close>

lemma set_id_absent:
  "finalPath \<notin> tr_path ` set ts \<Longrightarrow> set_id_of_path finalPath newId ts = (ts, False)"
  by (induction ts) auto

lemma set_id_first:
  "i < length ts \<Longrightarrow> tr_path (ts ! i) = finalPath
     \<Longrightarrow> (\<forall>j<i. tr_path (ts ! j) \<noteq> finalPath)
     \<Longrightarrow> set_id_of_path finalPath newId ts = (ts[i := (ts ! i)\<lparr>tr_id := newId\<rparr>], True)"
proof (induction ts arbitrary: i)
  case Nil
  then show ?case by simp
next
  case (Cons t ts)
  show ?case
  proof (cases i)
    case 0
    then show ?thesis using Cons.prems by simp
  next
    case (Suc k)
    have t: "tr_path t \<noteq> finalPath" using Cons.prems(3) Suc by auto
    have "set_id_of_path finalPath newId ts = (ts[k := (ts ! k)\<lparr>tr_id := newId\<rparr>], True)"
      using Cons.prems Suc by (intro Cons.IH) auto
    then show ?thesis using t Suc by simp
  qed
qed

lemma set_id_paths:
  "map tr_path (fst (set_id_of_path finalPath newId ts)) = map tr_path ts"
  by (induction ts) (auto split: prod.splits)

lemma set_id_found:
  "snd (set_id_of_path finalPath newId ts) = (finalPath \<in> tr_path ` set ts)"
  by (induction ts) (auto split: prod.splits)

lemma upsert_paths:
  "map tr_path (upsert tp ts)
     = (if ''./translations/'' @ tp_resourceName tp \<in> tr_path ` set ts then map tr_path ts
        else map tr_path ts @ [''./translations/'' @ tp_resourceName tp])"
  using set_id_paths [of "''./translations/'' @ tp_resourceName tp" "tp_id tp" ts]
    set_id_found [of "''./translations/'' @ tp_resourceName tp" "tp_id tp" ts]
  by (auto simp: upsert_def Let_def split: prod.splits)

lemma upsert_distinct:
  "distinct (map tr_path ts) \<Longrightarrow> distinct (map tr_path (upsert tp ts))"
  by (auto simp: upsert_paths)

lemma reconcile_distinct:
  "distinct (map tr_path ts) \<Longrightarrow> distinct (map tr_path (reconcile tps ts))"
  unfolding reconcile_def
  by (induction tps arbitrary: ts) (simp_all add: upsert_distinct)

lemma reconcile_step:
  "k < length tps \<Longrightarrow>
     reconcile (take (Suc k) tps) ts = upsert (tps ! k) (reconcile (take k tps) ts)"
  by (simp add: reconcile_def take_Suc_conv_app_nth)

lemma remove1_distinct_paths:
  "distinct (map tr_path ts) \<Longrightarrow> distinct (map tr_path (remove1 x ts))"
proof (induction ts)
  case Nil
  then show ?case by simp
next
  case (Cons t ts)
  have "set (remove1 x ts) \<subseteq> set ts" by (rule set_remove1_subset)
  then show ?case using Cons by auto
qed

lemma splice_all_distinct:
  "distinct (map tr_path ts) \<Longrightarrow> distinct (map tr_path (splice_all nonExistant ts))"
  unfolding splice_all_def
  by (induction nonExistant arbitrary: ts) (simp_all add: remove1_distinct_paths)

text \<open>
  C4. Reconciliation takes the new translation-path records one after the other,
  starting from the translations list as it is. For every record, with the list as the
  records before it have left it: when the list has an entry with the record's derived
  path, the (first) such entry gets the record's id, at its position, and nothing else
  in the list changes; when no entry has the path, the entry with the record's id and
  the path is appended at the end. A list with pairwise distinct paths has pairwise
  distinct paths after reconciliation. The \<open>end\<close> handler, when \<open>translationPaths\<close> is
  defined, reconciles the list from which the entries with a missing file have been
  removed, and its result has pairwise distinct paths when the descriptor's list has.
\<close>

theorem upsert_correct:
  "reconcile [] ts = ts
   \<and> (\<forall>k<length tps.
        (\<forall>i. i < length (reconcile (take k tps) ts)
              \<and> tr_path (reconcile (take k tps) ts ! i)
                  = ''./translations/'' @ tp_resourceName (tps ! k)
              \<and> (\<forall>j<i. tr_path (reconcile (take k tps) ts ! j)
                          \<noteq> ''./translations/'' @ tp_resourceName (tps ! k)) \<longrightarrow>
              reconcile (take (Suc k) tps) ts
                = (reconcile (take k tps) ts)
                    [i := (reconcile (take k tps) ts ! i)\<lparr>tr_id := tp_id (tps ! k)\<rparr>])
        \<and> (''./translations/'' @ tp_resourceName (tps ! k)
               \<notin> tr_path ` set (reconcile (take k tps) ts) \<longrightarrow>
              reconcile (take (Suc k) tps) ts
                = reconcile (take k tps) ts
                    @ [\<lparr> tr_id = tp_id (tps ! k),
                         tr_path = ''./translations/'' @ tp_resourceName (tps ! k),
                         tr_rest = [] \<rparr>]))
   \<and> reconcile (take (length tps) tps) ts = reconcile tps ts
   \<and> (distinct (map tr_path ts) \<longrightarrow> distinct (map tr_path (reconcile tps ts)))
   \<and> on_end h d folder (Some tps) ts
       = Some (reconcile tps (splice_all (nonExistantExtensions h d folder ts) ts))
   \<and> (distinct (map tr_path ts) \<longrightarrow>
        (\<exists>ts'. on_end h d folder (Some tps) ts = Some ts' \<and> distinct (map tr_path ts')))"
proof -
  have 0: "reconcile [] ts = ts" by (simp add: reconcile_def)
  have 1: "reconcile (take (Suc k) tps) ts
             = (reconcile (take k tps) ts)
                 [i := (reconcile (take k tps) ts ! i)\<lparr>tr_id := tp_id (tps ! k)\<rparr>]"
    if k: "k < length tps"
      and "i < length (reconcile (take k tps) ts)"
      and "tr_path (reconcile (take k tps) ts ! i)
             = ''./translations/'' @ tp_resourceName (tps ! k)"
      and "\<forall>j<i. tr_path (reconcile (take k tps) ts ! j)
             \<noteq> ''./translations/'' @ tp_resourceName (tps ! k)" for k i
    using set_id_first [OF that(2,3,4), of "tp_id (tps ! k)"]
    by (simp add: reconcile_step [OF k] upsert_def)
  have 2: "reconcile (take (Suc k) tps) ts
             = reconcile (take k tps) ts
                 @ [\<lparr> tr_id = tp_id (tps ! k),
                      tr_path = ''./translations/'' @ tp_resourceName (tps ! k),
                      tr_rest = [] \<rparr>]"
    if k: "k < length tps"
      and "''./translations/'' @ tp_resourceName (tps ! k)
             \<notin> tr_path ` set (reconcile (take k tps) ts)" for k
    using set_id_absent [OF that(2), of "tp_id (tps ! k)"]
    by (simp add: reconcile_step [OF k] upsert_def)
  have 3: "reconcile (take (length tps) tps) ts = reconcile tps ts" by simp
  have 4: "distinct (map tr_path (reconcile tps ts))" if "distinct (map tr_path ts)"
    using that by (rule reconcile_distinct)
  have 5: "on_end h d folder (Some tps) ts
       = Some (reconcile tps (splice_all (nonExistantExtensions h d folder ts) ts))"
    by (simp add: on_end_def)
  have 6: "\<exists>ts'. on_end h d folder (Some tps) ts = Some ts' \<and> distinct (map tr_path ts')"
    if "distinct (map tr_path ts)"
    unfolding 5 using reconcile_distinct [OF splice_all_distinct [OF that]] by simp
  have s: "\<forall>k<length tps.
        (\<forall>i. i < length (reconcile (take k tps) ts)
              \<and> tr_path (reconcile (take k tps) ts ! i)
                  = ''./translations/'' @ tp_resourceName (tps ! k)
              \<and> (\<forall>j<i. tr_path (reconcile (take k tps) ts ! j)
                          \<noteq> ''./translations/'' @ tp_resourceName (tps ! k)) \<longrightarrow>
              reconcile (take (Suc k) tps) ts
                = (reconcile (take k tps) ts)
                    [i := (reconcile (take k tps) ts ! i)\<lparr>tr_id := tp_id (tps ! k)\<rparr>])
        \<and> (''./translations/'' @ tp_resourceName (tps ! k)
               \<notin> tr_path ` set (reconcile (take k tps) ts) \<longrightarrow>
              reconcile (take (Suc k) tps) ts
                = reconcile (take k tps) ts
                    @ [\<lparr> tr_id = tp_id (tps ! k),
                         tr_path = ''./translations/'' @ tp_resourceName (tps ! k),
                         tr_rest = [] \<rparr>])"
  proof (intro allI impI conjI)
    fix k i
    assume "k < length tps"
      and "i < length (reconcile (take k tps) ts)
              \<and> tr_path (reconcile (take k tps) ts ! i)
                  = ''./translations/'' @ tp_resourceName (tps ! k)
              \<and> (\<forall>j<i. tr_path (reconcile (take k tps) ts ! j)
                          \<noteq> ''./translations/'' @ tp_resourceName (tps ! k))"
    then show "reconcile (take (Suc k) tps) ts
                = (reconcile (take k tps) ts)
                    [i := (reconcile (take k tps) ts ! i)\<lparr>tr_id := tp_id (tps ! k)\<rparr>]"
      using 1 [of k i] by simp
  next
    fix k
    assume "k < length tps"
      and "''./translations/'' @ tp_resourceName (tps ! k)
               \<notin> tr_path ` set (reconcile (take k tps) ts)"
    then show "reconcile (take (Suc k) tps) ts
                = reconcile (take k tps) ts
                    @ [\<lparr> tr_id = tp_id (tps ! k),
                         tr_path = ''./translations/'' @ tp_resourceName (tps ! k),
                         tr_rest = [] \<rparr>]"
      by (rule 2)
  qed
  have c: "distinct (map tr_path ts) \<longrightarrow> distinct (map tr_path (reconcile tps ts))"
    using 4 by simp
  have e: "distinct (map tr_path ts) \<longrightarrow>
        (\<exists>ts'. on_end h d folder (Some tps) ts = Some ts' \<and> distinct (map tr_path ts'))"
    using 6 by simp
  from 0 s 3 c 5 e show ?thesis by (intro conjI)
qed

theorem upsert_correct_witness:
  "(0::nat) < length [\<lparr> tp_id = ''admin'', tp_resourceName = ''extensions/admin.i18n.json'' \<rparr>,
                     \<lparr> tp_id = ''arc'', tp_resourceName = ''extensions/arc.i18n.json'' \<rparr>]
   \<and> (1::nat) < length translations_sample
   \<and> tr_path (translations_sample ! 1) = ''./translations/extensions/admin.i18n.json''
   \<and> reconcile [\<lparr> tp_id = ''admin'', tp_resourceName = ''extensions/admin.i18n.json'' \<rparr>]
        translations_sample
       = [\<lparr> tr_id = ''vscode'', tr_path = ''./translations/main.i18n.json'', tr_rest = [] \<rparr>,
          \<lparr> tr_id = ''admin'', tr_path = ''./translations/extensions/admin.i18n.json'',
            tr_rest = [(''note'', ''kept'')] \<rparr>]
   \<and> reconcile [\<lparr> tp_id = ''admin'', tp_resourceName = ''extensions/admin.i18n.json'' \<rparr>,
                \<lparr> tp_id = ''arc'', tp_resourceName = ''extensions/arc.i18n.json'' \<rparr>]
        translations_sample
       = [\<lparr> tr_id = ''vscode'', tr_path = ''./translations/main.i18n.json'', tr_rest = [] \<rparr>,
          \<lparr> tr_id = ''admin'', tr_path = ''./translations/extensions/admin.i18n.json'',
            tr_rest = [(''note'', ''kept'')] \<rparr>,
          \<lparr> tr_id = ''arc'', tr_path = ''./translations/extensions/arc.i18n.json'',
            tr_rest = [] \<rparr>]
   \<and> distinct (map tr_path translations_sample)
   \<and> (\<exists>ts'. on_end (host_sample existing_sample)
          [''i18n/ads-language-pack-de/translations/main.i18n.json''
             \<mapsto> CatalogFile \<lparr> ct_header = header_lines, ct_version = ''1.0.0'',
                               ct_contents = [], ct_crlf = False \<rparr>]
          ''i18n/ads-language-pack-de/translations''
          (Some [\<lparr> tp_id = ''admin'', tp_resourceName = ''extensions/admin.i18n.json'' \<rparr>,
                 \<lparr> tp_id = ''arc'', tp_resourceName = ''extensions/arc.i18n.json'' \<rparr>])
          translations_sample = Some ts'
        \<and> ts' = [\<lparr> tr_id = ''vscode'', tr_path = ''./translations/main.i18n.json'',
                    tr_rest = [] \<rparr>,
                  \<lparr> tr_id = ''admin'', tr_path = ''./translations/extensions/admin.i18n.json'',
                    tr_rest = [] \<rparr>,
                  \<lparr> tr_id = ''arc'', tr_path = ''./translations/extensions/arc.i18n.json'',
                    tr_rest = [] \<rparr>]
        \<and> distinct (map tr_path ts'))"
proof -
  let ?a = "\<lparr> tp_id = ''admin'', tp_resourceName = ''extensions/admin.i18n.json'' \<rparr>"
  let ?b = "\<lparr> tp_id = ''arc'', tp_resourceName = ''extensions/arc.i18n.json'' \<rparr>"
  let ?h = "host_sample existing_sample"
  let ?d = "[''i18n/ads-language-pack-de/translations/main.i18n.json''
             \<mapsto> CatalogFile \<lparr> ct_header = header_lines, ct_version = ''1.0.0'',
                               ct_contents = [], ct_crlf = False \<rparr>]
           :: (string \<times> string) list disk"
  let ?folder = "''i18n/ads-language-pack-de/translations''"
  let ?r1 = "[\<lparr> tr_id = ''vscode'', tr_path = ''./translations/main.i18n.json'', tr_rest = [] \<rparr>,
          \<lparr> tr_id = ''admin'', tr_path = ''./translations/extensions/admin.i18n.json'',
            tr_rest = [(''note'', ''kept'')] \<rparr>]"
  note u = upsert_correct [of translations_sample "[?a, ?b]" ?h ?d ?folder]
  have k0: "(0::nat) < length [?a, ?b]" and k1: "(1::nat) < length [?a, ?b]" by simp_all
  have l: "(1::nat) < length translations_sample" by (simp add: translations_sample_def)
  have p: "tr_path (translations_sample ! 1) = ''./translations/extensions/admin.i18n.json''"
    by (simp add: translations_sample_def)
  have d: "distinct (map tr_path translations_sample)" by (simp add: translations_sample_def)
  have r0: "reconcile (take 0 [?a, ?b]) translations_sample = translations_sample"
    using u by simp
  have h0: "1 < length (reconcile (take 0 [?a, ?b]) translations_sample)
       \<and> tr_path (reconcile (take 0 [?a, ?b]) translations_sample ! 1)
           = ''./translations/'' @ tp_resourceName ([?a, ?b] ! 0)
       \<and> (\<forall>j<1. tr_path (reconcile (take 0 [?a, ?b]) translations_sample ! j)
                   \<noteq> ''./translations/'' @ tp_resourceName ([?a, ?b] ! 0))"
    unfolding r0 by (simp add: translations_sample_def)
  from u k0 h0 have "reconcile (take (Suc 0) [?a, ?b]) translations_sample
      = (reconcile (take 0 [?a, ?b]) translations_sample)
          [1 := (reconcile (take 0 [?a, ?b]) translations_sample ! 1)
                  \<lparr>tr_id := tp_id ([?a, ?b] ! 0)\<rparr>]"
    by blast
  then have r1: "reconcile (take (Suc 0) [?a, ?b]) translations_sample = ?r1"
    unfolding r0 by (simp add: translations_sample_def)
  have h1: "''./translations/'' @ tp_resourceName ([?a, ?b] ! 1)
              \<notin> tr_path ` set (reconcile (take 1 [?a, ?b]) translations_sample)"
    using r1 by simp
  from u k1 h1 have "reconcile (take (Suc 1) [?a, ?b]) translations_sample
      = reconcile (take 1 [?a, ?b]) translations_sample
          @ [\<lparr> tr_id = tp_id ([?a, ?b] ! 1),
               tr_path = ''./translations/'' @ tp_resourceName ([?a, ?b] ! 1),
               tr_rest = [] \<rparr>]"
    by blast
  then have r2: "reconcile [?a, ?b] translations_sample
      = ?r1 @ [\<lparr> tr_id = ''arc'', tr_path = ''./translations/extensions/arc.i18n.json'',
                  tr_rest = [] \<rparr>]"
    using r1 by simp
  have r1': "reconcile [?a] translations_sample = ?r1" using r1 by simp
  from u d obtain ts' where
    e: "on_end ?h ?d ?folder (Some [?a, ?b]) translations_sample = Some ts'"
    and e': "distinct (map tr_path ts')"
    by blast
  have "on_end ?h ?d ?folder (Some [?a, ?b]) translations_sample
      = Some [\<lparr> tr_id = ''vscode'', tr_path = ''./translations/main.i18n.json'',
                 tr_rest = [] \<rparr>,
              \<lparr> tr_id = ''admin'', tr_path = ''./translations/extensions/admin.i18n.json'',
                 tr_rest = [] \<rparr>,
              \<lparr> tr_id = ''arc'', tr_path = ''./translations/extensions/arc.i18n.json'',
                 tr_rest = [] \<rparr>]"
    by (simp add: on_end_def reconcile_def upsert_def splice_all_def nonExistantExtensions_def
          statSync_ok_def host_sample_def translations_sample_def Let_def)
  with e e' have o: "\<exists>ts'. on_end ?h ?d ?folder (Some [?a, ?b]) translations_sample = Some ts'
        \<and> ts' = [\<lparr> tr_id = ''vscode'', tr_path = ''./translations/main.i18n.json'',
                    tr_rest = [] \<rparr>,
                  \<lparr> tr_id = ''admin'', tr_path = ''./translations/extensions/admin.i18n.json'',
                    tr_rest = [] \<rparr>,
                  \<lparr> tr_id = ''arc'', tr_path = ''./translations/extensions/arc.i18n.json'',
                    tr_rest = [] \<rparr>]
        \<and> distinct (map tr_path ts')"
    by simp
  from k0 l p r1' r2 d o show ?thesis by simp
qed

section \<open>Failure of the merge\<close>

lemma errors_route_file:
  "route_file resource v file st = Inr st' \<Longrightarrow> errors st' = errors st"
  by (auto simp: route_file_def Let_def split: if_splits)

lemma errors_route_files:
  "errors (fst (route_files resource v files st)) = errors st"
proof (induction files arbitrary: st)
  case Nil
  show ?case by simp
next
  case (Cons f fs)
  show ?case
  proof (cases "route_file resource v f st")
    case (Inl e)
    then show ?thesis by simp
  next
    case (Inr st')
    then show ?thesis using Cons [of st'] errors_route_file [OF Inr] by simp
  qed
qed

lemma errors_write_xlf:
  "errors (write_xlf h i18n pseudo xlf st)
     = errors st @
       (case parse_xlf i18n pseudo xlf of
          Inl reason \<Rightarrow> [reason]
        | Inr resolvedFiles \<Rightarrow>
            (case snd (route_files (resource_of h xlf) (i18nPackVersion i18n) resolvedFiles st) of
               None \<Rightarrow> [] | Some reason \<Rightarrow> [reason]))"
proof (cases "parse_xlf i18n pseudo xlf")
  case (Inl reason)
  then show ?thesis by (simp add: write_xlf_def Let_def)
next
  case (Inr resolvedFiles)
  obtain st' r where
    p: "route_files (resource_of h xlf) (i18nPackVersion i18n) resolvedFiles st = (st', r)"
    by (cases "route_files (resource_of h xlf) (i18nPackVersion i18n) resolvedFiles st")
  have "errors st' = errors st"
    using errors_route_files [of "resource_of h xlf" "i18nPackVersion i18n" resolvedFiles st]
    by (simp add: p)
  then show ?thesis
    using Inr p by (cases r) (simp_all add: write_xlf_def Let_def)
qed

lemma errors_write_xlf_rejected:
  "parse_xlf i18n pseudo xlf = Inl reason \<Longrightarrow>
     errors (write_xlf h i18n pseudo xlf st) = errors st @ [reason]"
  by (simp add: errors_write_xlf)

lemma modify_failed:
  assumes "errors (settle_all h i18n pseudo xlfs) \<noteq> []"
  shows "\<exists>reason. modifyI18nPackFiles h i18n folder paths pseudo xlfs = emit_error reason paths"
proof (cases "first_rejection (map (parse_xlf i18n pseudo) xlfs)")
  case None
  then have "modifyI18nPackFiles h i18n folder paths pseudo xlfs
      = emit_error (ErrorList (errors (settle_all h i18n pseudo xlfs))) paths"
    using assms by (simp add: modifyI18nPackFiles_def Let_def)
  then show ?thesis by (rule exI)
next
  case (Some reason)
  then have "modifyI18nPackFiles h i18n folder paths pseudo xlfs
      = emit_error (Reason reason) paths"
    by (simp add: modifyI18nPackFiles_def Let_def)
  then show ?thesis by (rule exI)
qed

text \<open>
  C5. When the error list is not empty after all parses of a batch have settled,
  \<open>modifyI18nPackFiles\<close> queues no file, does not end its stream, emits an error and
  pushes no translation path. For a localization whose batch fails so, the pipeline
  leaves the manifest and the disk as they were: no catalog file and no
  \<open>package.json\<close> is written. And the \<open>end\<close> handler does nothing when \<open>translationPaths\<close>
  is \<open>undefined\<close>.
\<close>

theorem merge_failure_atomic:
  "(errors (settle_all h i18n pseudo xlfs) \<noteq> [] \<longrightarrow>
      queued (modifyI18nPackFiles h i18n folder paths pseudo xlfs) = []
      \<and> \<not> ended (modifyI18nPackFiles h i18n folder paths pseudo xlfs)
      \<and> emitted_error (modifyI18nPackFiles h i18n folder paths pseudo xlfs) \<noteq> None
      \<and> resultingTranslationPaths (modifyI18nPackFiles h i18n folder paths pseudo xlfs) = paths)
   \<and> (errors (settle_all (h\<lparr>read_contents := read_disk d\<rparr>) i18n
                (effective_language (pkg_localizations pkg ! i) = ''ps'')
                (xlf_batch h gulp_src location (effective_language (pkg_localizations pkg ! i))))
         \<noteq> [] \<longrightarrow>
       (\<forall>r. import_localization h i18n gulp_src location locExtFolder pkg i d = Inr r \<longrightarrow>
            r = (pkg, d)))
   \<and> on_end h d folder None translations = None"
proof -
  have 1: "queued (modifyI18nPackFiles h i18n folder paths pseudo xlfs) = []
      \<and> \<not> ended (modifyI18nPackFiles h i18n folder paths pseudo xlfs)
      \<and> emitted_error (modifyI18nPackFiles h i18n folder paths pseudo xlfs) \<noteq> None
      \<and> resultingTranslationPaths (modifyI18nPackFiles h i18n folder paths pseudo xlfs) = paths"
    if "errors (settle_all h i18n pseudo xlfs) \<noteq> []"
    using modify_failed [OF that, of folder paths] by (auto simp: emit_error_def)
  have 2: "r = (pkg, d)"
    if e: "errors (settle_all (h\<lparr>read_contents := read_disk d\<rparr>) i18n
                (effective_language (pkg_localizations pkg ! i) = ''ps'')
                (xlf_batch h gulp_src location (effective_language (pkg_localizations pkg ! i))))
         \<noteq> []"
      and r: "import_localization h i18n gulp_src location locExtFolder pkg i d = Inr r" for r
  proof -
    from modify_failed [OF e, of "path_join h [locExtFolder, ''translations'']" "[]"]
    obtain reason where m: "modifyI18nPackFiles (h\<lparr>read_contents := read_disk d\<rparr>) i18n
        (path_join h [locExtFolder, ''translations'']) []
        (effective_language (pkg_localizations pkg ! i) = ''ps'')
        (xlf_batch h gulp_src location (effective_language (pkg_localizations pkg ! i)))
      = emit_error reason []" by blast
    from r show ?thesis
      by (simp add: import_localization_def Let_def m emit_error_def vfs_dest_def
            split: if_splits)
  qed
  have 3: "on_end h d folder None translations = None" by (simp add: on_end_def)
  from 1 2 3 show ?thesis by blast
qed

lemma import_valid:
  assumes "\<not> falsy (loc_languageId (pkg_localizations pkg ! i))"
    and "\<not> falsy (loc_languageName (pkg_localizations pkg ! i))"
    and "\<not> falsy (loc_localizedLanguageName (pkg_localizations pkg ! i))"
  shows "\<exists>r. import_localization h i18n gulp_src location locExtFolder pkg i d = Inr r"
  using assms by (simp add: import_localization_def Let_def split: option.splits)

theorem merge_failure_atomic_witness:
  "errors (settle_all ((host_sample existing_sample)\<lparr>read_contents := read_disk disk_sample\<rparr>)
             i18n_sample (effective_language (pkg_localizations pkg_sample ! 0) = ''ps'')
             (xlf_batch (host_sample existing_sample)
                (\<lambda>pattern. [\<lparr> xlf_relative = ''admin.de.xlf'', xlf_contents = ''broken'' \<rparr>])
                ''resources/xlf'' (effective_language (pkg_localizations pkg_sample ! 0))))
     \<noteq> []
   \<and> queued (modifyI18nPackFiles
        ((host_sample existing_sample)\<lparr>read_contents := read_disk disk_sample\<rparr>)
        i18n_sample ''translations'' []
        (effective_language (pkg_localizations pkg_sample ! 0) = ''ps'')
        (xlf_batch (host_sample existing_sample)
           (\<lambda>pattern. [\<lparr> xlf_relative = ''admin.de.xlf'', xlf_contents = ''broken'' \<rparr>])
           ''resources/xlf'' (effective_language (pkg_localizations pkg_sample ! 0)))) = []
   \<and> import_localization (host_sample existing_sample) i18n_sample
        (\<lambda>pattern. [\<lparr> xlf_relative = ''admin.de.xlf'', xlf_contents = ''broken'' \<rparr>])
        ''resources/xlf'' ''i18n/ads-language-pack-de'' pkg_sample 0 disk_sample
       = Inr (pkg_sample, disk_sample)"
proof -
  let ?h = "host_sample existing_sample"
  let ?src = "\<lambda>pattern :: string. [\<lparr> xlf_relative = ''admin.de.xlf'', xlf_contents = ''broken'' \<rparr>]"
  let ?lang = "effective_language (pkg_localizations pkg_sample ! 0)"
  have e: "errors (settle_all (?h\<lparr>read_contents := read_disk disk_sample\<rparr>) i18n_sample
             (?lang = ''ps'') (xlf_batch ?h ?src ''resources/xlf'' ?lang)) \<noteq> []"
    by (simp add: settle_all_def errors_write_xlf_rejected xlf_batch_def parse_xlf_def
          i18n_sample_def pkg_sample_def effective_language_def normalize_language_def)
  note t = merge_failure_atomic [where h = "?h\<lparr>read_contents := read_disk disk_sample\<rparr>"
      and i18n = i18n_sample and pseudo = "?lang = ''ps''"
      and xlfs = "xlf_batch ?h ?src ''resources/xlf'' ?lang" and folder = "''translations''"
      and paths = "[]"]
  note t' = merge_failure_atomic [where h = ?h and d = disk_sample and i18n = i18n_sample
      and pkg = pkg_sample and i = 0 and gulp_src = ?src and location = "''resources/xlf''"
      and locExtFolder = "''i18n/ads-language-pack-de''"]
  from t e have q: "queued (modifyI18nPackFiles (?h\<lparr>read_contents := read_disk disk_sample\<rparr>)
        i18n_sample ''translations'' [] (?lang = ''ps'')
        (xlf_batch ?h ?src ''resources/xlf'' ?lang)) = []"
    by blast
  have "\<exists>r. import_localization ?h i18n_sample ?src ''resources/xlf''
             ''i18n/ads-language-pack-de'' pkg_sample 0 disk_sample = Inr r"
    by (rule import_valid) (simp_all add: pkg_sample_def falsy_def)
  then obtain r where r: "import_localization ?h i18n_sample ?src ''resources/xlf''
             ''i18n/ads-language-pack-de'' pkg_sample 0 disk_sample = Inr r" by blast
  from t' e r have "r = (pkg_sample, disk_sample)" by blast
  with r e q show ?thesis by simp
qed

section \<open>Retention of extension files\<close>

lemma join_with_Cons:
  "join_with sep (x # xs) = x @ (if xs = [] then [] else sep @ join_with sep xs)"
  by (cases xs) simp_all

lemma folder_paths:
  "locVSCODEFolder langId = ''i18n/vscode-language-pack-'' @ langId"
  "vscode_translationDataFolder langId = ''i18n/vscode-language-pack-'' @ langId @ ''/translations''"
  "xlfFolder = ''resources/xlf''"
  by (simp_all add: locVSCODEFolder_def vscode_translationDataFolder_def xlfFolder_def posix_join_def)

lemma extensions_folder:
  "posix_join [vscode_translationDataFolder langId, ''extensions'']
     = ''i18n/vscode-language-pack-'' @ langId @ ''/translations/extensions''"
  by (simp add: folder_paths posix_join_def)

lemma extension_filePath_entry:
  "entry_name n \<Longrightarrow>
     extension_filePath langId n = ''i18n/vscode-language-pack-'' @ langId @ ''/translations/extensions/'' @ n"
  by (simp add: extension_filePath_def folder_paths posix_join_def entry_name_def)

lemma xlfPath_head: "\<exists>rest. xlfPath langId n = ''resources/xlf'' @ rest"
  by (simp add: xlfPath_def folder_paths posix_join_def join_with_Cons)

lemma xlfPath_survives:
  assumes "entry_name n'"
  shows "existsSync (rimraf_sync (extension_filePath langId n') t) (xlfPath langId n)
           = existsSync t (xlfPath langId n)"
proof -
  obtain rest where x: "xlfPath langId n = ''resources/xlf'' @ rest"
    using xlfPath_head by blast
  have "xlfPath langId n \<noteq> extension_filePath langId n'"
    "\<not> prefix (extension_filePath langId n' @ ''/'') (xlfPath langId n)"
    by (simp_all add: x extension_filePath_entry [OF assms])
  then show ?thesis by (simp add: existsSync_def rimraf_sync_def)
qed

lemma retained_survives:
  "entry_name n' \<Longrightarrow> retained (rimraf_sync (extension_filePath langId n') t) langId n = retained t langId n"
  by (simp add: retained_def xlfPath_survives)

lemma prune_step_retained:
  "prune_step langId n t = (if retained t langId n then t else rimraf_sync (extension_filePath langId n) t)"
  by (simp add: prune_step_def retained_def)

lemma retained_step:
  "entry_name n' \<Longrightarrow> retained (prune_step langId n' t) langId n = retained t langId n"
  by (simp add: prune_step_retained retained_survives)

lemma extension_filePath_step:
  assumes "entry_name n" "entry_name n'"
  shows "existsSync (prune_step langId n' t) (extension_filePath langId n)
           = (existsSync t (extension_filePath langId n) \<and> (n = n' \<longrightarrow> retained t langId n))"
proof (cases "n = n'")
  case True
  then show ?thesis
    by (auto simp: prune_step_retained existsSync_def rimraf_sync_def)
next
  case False
  have "CHR ''/'' \<notin> set n" using assms(1) by (simp add: entry_name_def)
  then have "\<not> prefix (n' @ ''/'') n"
    by (auto simp: prefix_def)
  then have "\<not> prefix (extension_filePath langId n' @ ''/'') (extension_filePath langId n)"
    by (simp add: extension_filePath_entry assms)
  moreover have "extension_filePath langId n \<noteq> extension_filePath langId n'"
    using False by (simp add: extension_filePath_entry assms)
  ultimately show ?thesis
    using False by (auto simp: prune_step_retained existsSync_def rimraf_sync_def)
qed

lemma extension_filePath_fold:
  assumes "entry_name n" "\<forall>n' \<in> set ns. entry_name n'"
  shows "existsSync (fold (prune_step langId) ns t) (extension_filePath langId n)
           = (existsSync t (extension_filePath langId n) \<and> (n \<in> set ns \<longrightarrow> retained t langId n))"
  using assms(2)
proof (induction ns arbitrary: t)
  case Nil
  then show ?case by simp
next
  case (Cons a ns)
  have a: "entry_name a" using Cons.prems by simp
  have "existsSync (fold (prune_step langId) (a # ns) t) (extension_filePath langId n)
          = (existsSync (prune_step langId a t) (extension_filePath langId n)
             \<and> (n \<in> set ns \<longrightarrow> retained (prune_step langId a t) langId n))"
    using Cons by simp
  then show ?case
    by (auto simp: extension_filePath_step [OF assms(1) a] retained_step [OF a])
qed

lemma readdir_entries:
  assumes "readdirSync t p = Inr names" "n \<in> set names"
  shows "entry_name n \<and> p @ ''/'' @ n \<in> set t"
proof -
  from assms have n: "n \<in> set (filter entry_name (map (drop (length p + 1)) (filter (prefix (p @ ''/'')) t)))"
    by (auto simp: readdirSync_def split: if_splits)
  then have en: "entry_name n" by simp
  from n obtain q where q: "q \<in> set t" "prefix (p @ ''/'') q" "n = drop (length p + 1) q"
    by auto
  from q(2) obtain r where r: "q = (p @ ''/'') @ r" by (auto simp: prefix_def)
  have "n = r" unfolding q(3) r by simp
  then have "p @ ''/'' @ n = q" using r by simp
  then have "p @ ''/'' @ n \<in> set t" using q(1) by (simp only:)
  with en show ?thesis by (rule conjI)
qed

text \<open>
  What the loop does, in terms of the path it builds: for every file name that
  \<open>readdirSync\<close> lists in the \<open>translations/extensions\<close> directory, after the loop the
  file exists if and only if the path \<open>resources/xlf/<langId>/<short name>.xlf\<close> existed
  or the short name without \<open>.i18n.json\<close> is on the list \<open>VSCODEExtensions\<close>. The short
  name is the file name with \<open>ms-vscode.\<close> rewritten to \<open>vscode.\<close> and then \<open>vscode.\<close>
  removed.
\<close>

lemma prune_keeps_retained:
  assumes "existsSync t (vscode_translationDataFolder langId)"
    and "readdirSync t (posix_join [vscode_translationDataFolder langId, ''extensions''])
           = Inr totalExtensions"
    and "extensionFileName \<in> set totalExtensions"
  shows "\<exists>t'. prune_extension_files langId t = Inr t'
           \<and> existsSync t (extension_filePath langId extensionFileName)
           \<and> existsSync t' (extension_filePath langId extensionFileName)
               = (existsSync t (xlfPath langId extensionFileName)
                  \<or> replace (shortExtensionFileName extensionFileName) ''.i18n.json'' []
                       \<in> set VSCODEExtensions)
           \<and> prune_step langId extensionFileName t
               = (if existsSync t (xlfPath langId extensionFileName)
                     \<or> replace (shortExtensionFileName extensionFileName) ''.i18n.json'' []
                          \<in> set VSCODEExtensions
                  then t else rimraf_sync (extension_filePath langId extensionFileName) t)"
proof -
  let ?d = "posix_join [vscode_translationDataFolder langId, ''extensions'']"
  have run: "prune_extension_files langId t = Inr (fold (prune_step langId) totalExtensions t)"
    using assms(1,2) by (simp add: prune_extension_files_def)
  have all: "\<forall>n' \<in> set totalExtensions. entry_name n'"
    using readdir_entries [OF assms(2)] by blast
  have e: "entry_name extensionFileName" using all assms(3) by blast
  have "?d @ ''/'' @ extensionFileName \<in> set t"
    using readdir_entries [OF assms(2,3)] by blast
  then have before: "existsSync t (extension_filePath langId extensionFileName)"
    by (simp add: existsSync_def extension_filePath_entry [OF e] extensions_folder)
  have after: "existsSync (fold (prune_step langId) totalExtensions t)
                 (extension_filePath langId extensionFileName)
               = retained t langId extensionFileName"
    using extension_filePath_fold [OF e all, of langId t] before assms(3) by simp
  show ?thesis
    unfolding run using before after
    by (simp add: retained_def prune_step_def)
qed

lemmas tree_defs =
  existsSync_def vscode_translationDataFolder_def locVSCODEFolder_def xlfFolder_def posix_join_def
  tree_sample_def readdirSync_def entry_name_def xlfPath_def shortExtensionFileName_def
  VSCODEExtensions_def

lemma prune_keeps_retained_sample:
  "existsSync tree_sample (vscode_translationDataFolder ''de'')
   \<and> readdirSync tree_sample (posix_join [vscode_translationDataFolder ''de'', ''extensions''])
       = Inr [''vscode.git.i18n.json'', ''vscode.json.i18n.json'', ''ms-vscode.arc.i18n.json'']
   \<and> (\<exists>t'. prune_extension_files ''de'' tree_sample = Inr t'
         \<and> \<not> existsSync t' (extension_filePath ''de'' ''vscode.git.i18n.json'')
         \<and> existsSync t' (extension_filePath ''de'' ''vscode.json.i18n.json'')
         \<and> existsSync t' (extension_filePath ''de'' ''ms-vscode.arc.i18n.json''))"
proof -
  let ?names = "[''vscode.git.i18n.json'', ''vscode.json.i18n.json'', ''ms-vscode.arc.i18n.json'']"
  have a: "existsSync tree_sample (vscode_translationDataFolder ''de'')"
    by (simp add: tree_defs)
  have b: "readdirSync tree_sample (posix_join [vscode_translationDataFolder ''de'', ''extensions''])
             = Inr ?names"
    by (simp add: tree_defs)
  have g: "\<not> (existsSync tree_sample (xlfPath ''de'' ''vscode.git.i18n.json'')
               \<or> replace (shortExtensionFileName ''vscode.git.i18n.json'') ''.i18n.json'' []
                    \<in> set VSCODEExtensions)"
    by (simp add: tree_defs)
  have j: "existsSync tree_sample (xlfPath ''de'' ''vscode.json.i18n.json'')
               \<or> replace (shortExtensionFileName ''vscode.json.i18n.json'') ''.i18n.json'' []
                    \<in> set VSCODEExtensions"
    by (simp add: tree_defs)
  have r: "existsSync tree_sample (xlfPath ''de'' ''ms-vscode.arc.i18n.json'')
               \<or> replace (shortExtensionFileName ''ms-vscode.arc.i18n.json'') ''.i18n.json'' []
                    \<in> set VSCODEExtensions"
    by (simp add: tree_defs)
  have m: "''vscode.git.i18n.json'' \<in> set ?names" "''vscode.json.i18n.json'' \<in> set ?names"
    "''ms-vscode.arc.i18n.json'' \<in> set ?names"
    by simp_all
  from prune_keeps_retained [OF a b m(1)] g obtain t' where
    t: "prune_extension_files ''de'' tree_sample = Inr t'"
    and 1: "\<not> existsSync t' (extension_filePath ''de'' ''vscode.git.i18n.json'')"
    by blast
  from prune_keeps_retained [OF a b m(2)] j t
  have 2: "existsSync t' (extension_filePath ''de'' ''vscode.json.i18n.json'')"
    by auto
  from prune_keeps_retained [OF a b m(3)] r t
  have 3: "existsSync t' (extension_filePath ''de'' ''ms-vscode.arc.i18n.json'')"
    by auto
  from a b t 1 2 3 show ?thesis by blast
qed

text \<open>
  C8 fails on the source XLIFF files as they are named. The XLIFF file of the extension
  arc for German is \<open>resources/xlf/de/arc.de.xlf\<close>: \<open>modifyI18nPackFiles\<close> takes the
  resource name arc from this name. The loop looks for \<open>resources/xlf/de/arc.xlf\<close>,
  which does not exist, and arc is not on the list \<open>VSCODEExtensions\<close>: the catalog
  \<open>ms-vscode.arc.i18n.json\<close> is removed although its source XLIFF file exists.
\<close>

theorem retention_locale_named_xlf:
  "existsSync tree_locale_sample ''resources/xlf/de/arc.de.xlf''
   \<and> resource_of host_posix
        \<lparr> xlf_relative = ''arc.de.xlf'', xlf_contents = ''<xliff/>'' \<rparr> = ''arc''
   \<and> xlfPath ''de'' ''ms-vscode.arc.i18n.json'' = ''resources/xlf/de/arc.xlf''
   \<and> \<not> existsSync tree_locale_sample (xlfPath ''de'' ''ms-vscode.arc.i18n.json'')
   \<and> replace (shortExtensionFileName ''ms-vscode.arc.i18n.json'') ''.i18n.json'' []
        \<notin> set VSCODEExtensions
   \<and> extension_filePath ''de'' ''ms-vscode.arc.i18n.json''
       = ''i18n/vscode-language-pack-de/translations/extensions/ms-vscode.arc.i18n.json''
   \<and> existsSync tree_locale_sample (extension_filePath ''de'' ''ms-vscode.arc.i18n.json'')
   \<and> prune_extension_files ''de'' tree_locale_sample
       = Inr [''i18n'', ''i18n/vscode-language-pack-de'',
              ''i18n/vscode-language-pack-de/translations'',
              ''i18n/vscode-language-pack-de/translations/extensions'',
              ''i18n/vscode-language-pack-de/translations/extensions/vscode.json.i18n.json'',
              ''resources'', ''resources/xlf'', ''resources/xlf/de'',
              ''resources/xlf/de/arc.de.xlf'']"
proof -
  have 1: "existsSync tree_locale_sample ''resources/xlf/de/arc.de.xlf''"
    by (simp add: existsSync_def tree_locale_sample_def)
  have 2: "resource_of host_posix
        \<lparr> xlf_relative = ''arc.de.xlf'', xlf_contents = ''<xliff/>'' \<rparr> = ''arc''"
    by (simp add: resource_of_def host_posix_def posix_basename_def Let_def substring_def
          lastIndexOf_def)
  have 3: "xlfPath ''de'' ''ms-vscode.arc.i18n.json'' = ''resources/xlf/de/arc.xlf''"
    by (simp add: xlfPath_def shortExtensionFileName_def xlfFolder_def posix_join_def)
  have 4: "\<not> existsSync tree_locale_sample (xlfPath ''de'' ''ms-vscode.arc.i18n.json'')"
    unfolding 3 by (simp add: existsSync_def tree_locale_sample_def)
  have 5: "replace (shortExtensionFileName ''ms-vscode.arc.i18n.json'') ''.i18n.json'' []
        \<notin> set VSCODEExtensions"
    by (simp add: shortExtensionFileName_def VSCODEExtensions_def)
  have 6: "extension_filePath ''de'' ''ms-vscode.arc.i18n.json''
       = ''i18n/vscode-language-pack-de/translations/extensions/ms-vscode.arc.i18n.json''"
    by (simp add: extension_filePath_def vscode_translationDataFolder_def locVSCODEFolder_def
          posix_join_def)
  have 7: "existsSync tree_locale_sample (extension_filePath ''de'' ''ms-vscode.arc.i18n.json'')"
    unfolding 6 by (simp add: existsSync_def tree_locale_sample_def)
  have j: "existsSync tree_locale_sample (xlfPath ''de'' ''vscode.json.i18n.json'')
           \<or> replace (shortExtensionFileName ''vscode.json.i18n.json'') ''.i18n.json'' []
                \<in> set VSCODEExtensions"
    by (simp add: shortExtensionFileName_def VSCODEExtensions_def)
  have d: "readdirSync tree_locale_sample
             (posix_join [vscode_translationDataFolder ''de'', ''extensions''])
           = Inr [''vscode.json.i18n.json'', ''ms-vscode.arc.i18n.json'']"
    by (simp add: readdirSync_def vscode_translationDataFolder_def locVSCODEFolder_def
          posix_join_def tree_locale_sample_def entry_name_def)
  have f: "existsSync tree_locale_sample (vscode_translationDataFolder ''de'')"
    by (simp add: existsSync_def vscode_translationDataFolder_def locVSCODEFolder_def
          posix_join_def tree_locale_sample_def)
  have s1: "prune_step ''de'' ''vscode.json.i18n.json'' tree_locale_sample = tree_locale_sample"
    using j by (simp add: prune_step_def)
  have s2: "prune_step ''de'' ''ms-vscode.arc.i18n.json'' tree_locale_sample
       = rimraf_sync
           ''i18n/vscode-language-pack-de/translations/extensions/ms-vscode.arc.i18n.json''
           tree_locale_sample"
    using 4 5 by (simp add: prune_step_def 6)
  have 8: "prune_extension_files ''de'' tree_locale_sample
       = Inr [''i18n'', ''i18n/vscode-language-pack-de'',
              ''i18n/vscode-language-pack-de/translations'',
              ''i18n/vscode-language-pack-de/translations/extensions'',
              ''i18n/vscode-language-pack-de/translations/extensions/vscode.json.i18n.json'',
              ''resources'', ''resources/xlf'', ''resources/xlf/de'',
              ''resources/xlf/de/arc.de.xlf'']"
    using f by (simp add: prune_extension_files_def d s1 s2)
       (simp add: rimraf_sync_def tree_locale_sample_def)
  from 1 2 3 4 5 6 7 8 show ?thesis by (intro conjI)
qed

end
